theory Spec2Isabelle
  imports Complex_Main
begin

section \<open>JavaScript values\<close>

text \<open>
  A JavaScript string is a sequence of UTF-16 code units; \<open>length\<close> counts code units,
  as \<^verbatim>\<open>String.prototype.length\<close> does. Literals of the source are written with
  \<open>js\<close>, which reads each character of an Isabelle string as its code point
  (the literals of the source are all within Latin-1).
\<close>

type_synonym code_unit = nat
type_synonym jsstring = "code_unit list"

definition js :: "string \<Rightarrow> jsstring" where
  "js s = map of_char s"

text \<open>
  \<^verbatim>\<open>\s\<close> in a regular expression and \<^verbatim>\<open>String.prototype.trim\<close> use the same
  set: ECMAScript WhiteSpace (TAB, VT, FF, SP, NBSP, ZWNBSP, the Unicode space separators)
  and LineTerminator (LF, CR, LS, PS).
\<close>

definition isWhiteSpace :: "code_unit \<Rightarrow> bool" where
  "isWhiteSpace c \<longleftrightarrow>
     (9 \<le> c \<and> c \<le> 13) \<or> c = 32 \<or> c = 160 \<or> c = 5760 \<or> (8192 \<le> c \<and> c \<le> 8202) \<or>
     c = 8232 \<or> c = 8233 \<or> c = 8239 \<or> c = 8287 \<or> c = 12288 \<or> c = 65279"

definition trim :: "jsstring \<Rightarrow> jsstring" where
  "trim s = rev (dropWhile isWhiteSpace (rev (dropWhile isWhiteSpace s)))"

text \<open>\<^verbatim>\<open>!s\<close> on a string: the empty string is the only falsy string.\<close>

definition falsy :: "jsstring \<Rightarrow> bool" where
  "falsy s \<longleftrightarrow> s = []"

text \<open>
  \<^verbatim>\<open>toLowerCase\<close> on the ASCII letters. The source applies it to the literals
  \<^verbatim>\<open>'Vorname'\<close> and \<^verbatim>\<open>'Nachname'\<close> only in the code modelled with it.
\<close>

definition toLowerCase_ascii :: "jsstring \<Rightarrow> jsstring" where
  "toLowerCase_ascii s = map (\<lambda>c. if 65 \<le> c \<and> c \<le> 90 then c + 32 else c) s"

text \<open>A \<^verbatim>\<open>Date\<close> is its time value, in milliseconds since the epoch.\<close>

type_synonym date = int

subsection \<open>Regular expressions\<close>

text \<open>
  The two patterns of the source have the form \<^verbatim>\<open>^...$\<close> (no flags) with a body made
  of single character classes, \<^verbatim>\<open>[class]+\<close> and concatenation. \<open>rests r s\<close> lists
  what is left of \<open>s\<close> after each way \<open>r\<close> can match a prefix of it; the anchored pattern
  matches when one of these ways consumes the whole string.
\<close>

datatype regex =
    RxClass "code_unit \<Rightarrow> bool"
  | RxPlus "code_unit \<Rightarrow> bool"
  | RxSeq regex regex

fun plus_rests :: "(code_unit \<Rightarrow> bool) \<Rightarrow> jsstring \<Rightarrow> jsstring list" where
  "plus_rests p [] = []"
| "plus_rests p (c # cs) = (if p c then cs # plus_rests p cs else [])"

fun rests :: "regex \<Rightarrow> jsstring \<Rightarrow> jsstring list" where
  "rests (RxClass p) s = (case s of [] \<Rightarrow> [] | c # cs \<Rightarrow> if p c then [cs] else [])"
| "rests (RxPlus p) s = plus_rests p s"
| "rests (RxSeq a b) s = concat (map (rests b) (rests a s))"

definition regex_test :: "regex \<Rightarrow> jsstring \<Rightarrow> bool" where
  "regex_test r s \<longleftrightarrow> [] \<in> set (rests r s)"

text \<open>\<^verbatim>\<open>[^\s@]\<close>\<close>

definition not_space_at :: "code_unit \<Rightarrow> bool" where
  "not_space_at c \<longleftrightarrow> \<not> isWhiteSpace c \<and> c \<noteq> 64"

text \<open>\<^verbatim>\<open>VALIDATION_RULES.EMAIL_REGEX = /^[^\s@]+@[^\s@]+\.[^\s@]+$/\<close>\<close>

definition EMAIL_REGEX :: regex where
  "EMAIL_REGEX =
     RxSeq (RxPlus not_space_at)
       (RxSeq (RxClass (\<lambda>c. c = 64))
         (RxSeq (RxPlus not_space_at)
           (RxSeq (RxClass (\<lambda>c. c = 46)) (RxPlus not_space_at))))"

text \<open>
  The letters of the class in \<^verbatim>\<open>User.validateName\<close>: a-z, A-Z, the German umlauts and
  sharp s, and the lower-case Latin-1 letters U+00E0 to U+00FF without the division sign
  U+00F7.
\<close>

definition isNameLetter :: "code_unit \<Rightarrow> bool" where
  "isNameLetter c \<longleftrightarrow>
     (97 \<le> c \<and> c \<le> 122) \<or> (65 \<le> c \<and> c \<le> 90) \<or>
     c = 228 \<or> c = 246 \<or> c = 252 \<or> c = 196 \<or> c = 214 \<or> c = 220 \<or> c = 223 \<or>
     (224 \<le> c \<and> c \<le> 246) \<or> (248 \<le> c \<and> c \<le> 255)"

text \<open>
  The whole class: the letters, \<^verbatim>\<open>\s\<close>, the hyphen and the apostrophe (with a class
  escape as one end, \<^verbatim>\<open>\s-'\<close> is no range: it stands for its three members).
\<close>

definition name_class :: "code_unit \<Rightarrow> bool" where
  "name_class c \<longleftrightarrow> isNameLetter c \<or> isWhiteSpace c \<or> c = 45 \<or> c = 39"

definition NAME_REGEX :: regex where
  "NAME_REGEX = RxPlus name_class"

section \<open>Errors and results (shared/types/common.ts)\<close>

text \<open>
  The instances of \<^verbatim>\<open>Error\<close> that the domain layer builds. A \<^verbatim>\<open>DomainError\<close> carries
  its message and code, a \<^verbatim>\<open>ValidationError\<close> its message and field (its code is
  \<^verbatim>\<open>VALIDATION_ERROR\<close>), a \<^verbatim>\<open>NotFoundError\<close> the resource and id its message is built
  from. The free-form \<^verbatim>\<open>context\<close> object is not modelled.
\<close>

datatype js_error =
    JsError jsstring
  | DomainError jsstring string
  | ValidationError jsstring string
  | NotFoundError string jsstring

fun error_code :: "js_error \<Rightarrow> string option" where
  "error_code (JsError m) = None"
| "error_code (DomainError m c) = Some c"
| "error_code (ValidationError m f) = Some ''VALIDATION_ERROR''"
| "error_code (NotFoundError r i) = Some ''NOT_FOUND''"

fun isValidationError :: "js_error \<Rightarrow> bool" where
  "isValidationError (ValidationError m f) = True"
| "isValidationError e = False"

text \<open>\<^verbatim>\<open>Result<T, E = Error>\<close>\<close>

datatype 'a result = Success 'a | Failure js_error

section \<open>User entity (domain/entities/User.ts)\<close>

record UserProps =
  u_id :: jsstring
  u_email :: jsstring
  u_firstName :: jsstring
  u_lastName :: jsstring
  u_avatar :: "jsstring option"
  u_isActive :: bool
  u_roles :: "jsstring list"
  u_lastLoginAt :: "date option"
  u_createdAt :: date
  u_updatedAt :: date

text \<open>A \<^verbatim>\<open>User\<close> holds its props and nothing else.\<close>

type_synonym User = UserProps

text \<open>The validation methods throw; here they return the error they would throw.\<close>

definition User_validateEmail :: "jsstring \<Rightarrow> js_error option" where
  "User_validateEmail email =
     (if falsy email \<or> length (trim email) = 0
      then Some (ValidationError (js ''E-Mail ist erforderlich'') ''email'')
      else if \<not> regex_test EMAIL_REGEX email
      then Some (ValidationError (js (''Ung'' @ [CHR 0xFC] @ ''ltige E-Mail-Adresse'')) ''email'')
      else None)"

definition User_validateName :: "jsstring \<Rightarrow> string \<Rightarrow> js_error option" where
  "User_validateName name fieldName =
     (let field = map char_of (toLowerCase_ascii (js fieldName)) in
      if falsy name \<or> length (trim name) = 0
      then Some (ValidationError (js (fieldName @ '' ist erforderlich'')) field)
      else if length name < 2
      then Some (ValidationError (js (fieldName @ '' muss mindestens 2 Zeichen haben'')) field)
      else if length name > 50
      then Some (ValidationError (js (fieldName @ '' darf maximal 50 Zeichen haben'')) field)
      else if \<not> regex_test NAME_REGEX name
      then Some (ValidationError
             (js (fieldName @
               '' darf nur Buchstaben, Leerzeichen, Bindestriche und Apostrophe enthalten''))
             field)
      else None)"

text \<open>
  The private constructor: it validates and keeps the props, or throws. The User is
  modelled by the value of its props at the call. (The instance keeps the object it is
  given, which for \<^verbatim>\<open>fromPersistence\<close> is the caller's own object: a caller that
  changes that object afterwards changes the User with no validation. That is not
  modelled.)
\<close>

definition User_new :: "UserProps \<Rightarrow> js_error + User" where
  "User_new props =
     (case User_validateEmail (u_email props) of
        Some e \<Rightarrow> Inl e
      | None \<Rightarrow>
          (case User_validateName (u_firstName props) ''Vorname'' of
             Some e \<Rightarrow> Inl e
           | None \<Rightarrow>
               (case User_validateName (u_lastName props) ''Nachname'' of
                  Some e \<Rightarrow> Inl e
                | None \<Rightarrow> Inr props)))"

text \<open>
  The argument of \<^verbatim>\<open>User.create\<close>. The tests call it without \<^verbatim>\<open>isActive\<close> and
  \<^verbatim>\<open>roles\<close>, and the code defaults them with \<^verbatim>\<open>??\<close>, so they are optional here.
\<close>

record CreateProps =
  c_email :: jsstring
  c_firstName :: jsstring
  c_lastName :: jsstring
  c_avatar :: "jsstring option"
  c_isActive :: "bool option"
  c_roles :: "jsstring list option"
  c_lastLoginAt :: "date option"

text \<open>
  \<open>now\<close> is what \<^verbatim>\<open>new Date()\<close> reads and \<open>uuid\<close> what \<^verbatim>\<open>crypto.randomUUID()\<close>
  returns.
\<close>

definition User_create :: "date \<Rightarrow> jsstring \<Rightarrow> CreateProps \<Rightarrow> js_error + User" where
  "User_create now uuid props =
     User_new \<lparr>
       u_id = uuid,
       u_email = c_email props,
       u_firstName = c_firstName props,
       u_lastName = c_lastName props,
       u_avatar = c_avatar props,
       u_isActive = (case c_isActive props of None \<Rightarrow> True | Some b \<Rightarrow> b),
       u_roles = (case c_roles props of None \<Rightarrow> [js ''user''] | Some r \<Rightarrow> r),
       u_lastLoginAt = c_lastLoginAt props,
       u_createdAt = now,
       u_updatedAt = now \<rparr>"

definition User_fromPersistence :: "UserProps \<Rightarrow> js_error + User" where
  "User_fromPersistence props = User_new props"

record ProfileUpdates =
  up_firstName :: "jsstring option"
  up_lastName :: "jsstring option"
  up_email :: "jsstring option"
  up_avatar :: "jsstring option"

text \<open>\<^verbatim>\<open>if (updates.x)\<close>: the field is present and not the empty string.\<close>

definition truthy_opt :: "jsstring option \<Rightarrow> bool" where
  "truthy_opt x = (case x of None \<Rightarrow> False | Some s \<Rightarrow> \<not> falsy s)"

text \<open>\<^verbatim>\<open>{ ...this.props, ...updates }\<close>: a field of \<open>updates\<close> that is present wins.\<close>

definition merge_updates :: "UserProps \<Rightarrow> ProfileUpdates \<Rightarrow> UserProps" where
  "merge_updates props updates =
     props \<lparr>
       u_firstName := (case up_firstName updates of None \<Rightarrow> u_firstName props | Some v \<Rightarrow> v),
       u_lastName := (case up_lastName updates of None \<Rightarrow> u_lastName props | Some v \<Rightarrow> v),
       u_email := (case up_email updates of None \<Rightarrow> u_email props | Some v \<Rightarrow> v),
       u_avatar := (case up_avatar updates of None \<Rightarrow> u_avatar props | Some v \<Rightarrow> Some v) \<rparr>"

definition User_updateProfile :: "date \<Rightarrow> User \<Rightarrow> ProfileUpdates \<Rightarrow> js_error + User" where
  "User_updateProfile clock this updates =
     (case (if truthy_opt (up_firstName updates)
            then User_validateName (the (up_firstName updates)) ''Vorname'' else None) of
        Some e \<Rightarrow> Inl e
      | None \<Rightarrow>
     (case (if truthy_opt (up_lastName updates)
            then User_validateName (the (up_lastName updates)) ''Nachname'' else None) of
        Some e \<Rightarrow> Inl e
      | None \<Rightarrow>
     (case (if truthy_opt (up_email updates)
            then User_validateEmail (the (up_email updates)) else None) of
        Some e \<Rightarrow> Inl e
      | None \<Rightarrow>
          (let now = (if clock = u_updatedAt this then clock + 1 else clock)
           in User_new ((merge_updates this updates) \<lparr> u_updatedAt := now \<rparr>)))))"

definition User_changeEmail :: "date \<Rightarrow> User \<Rightarrow> jsstring \<Rightarrow> js_error + User" where
  "User_changeEmail clock this newEmail =
     (case User_validateEmail newEmail of
        Some e \<Rightarrow> Inl e
      | None \<Rightarrow>
          if newEmail = u_email this
          then Inl (DomainError (js ''Neue E-Mail ist identisch mit der aktuellen E-Mail'')
                      ''EMAIL_UNCHANGED'')
          else User_new (this \<lparr> u_email := newEmail, u_updatedAt := clock \<rparr>))"

definition User_activate :: "date \<Rightarrow> User \<Rightarrow> js_error + User" where
  "User_activate clock this =
     (if u_isActive this
      then Inl (DomainError (js ''Benutzer ist bereits aktiv'') ''USER_ALREADY_ACTIVE'')
      else User_new (this \<lparr> u_isActive := True, u_updatedAt := clock \<rparr>))"

definition User_deactivate :: "date \<Rightarrow> User \<Rightarrow> js_error + User" where
  "User_deactivate clock this =
     (if \<not> u_isActive this
      then Inl (DomainError (js ''Benutzer ist bereits deaktiviert'') ''USER_ALREADY_INACTIVE'')
      else User_new (this \<lparr> u_isActive := False, u_updatedAt := clock \<rparr>))"

text \<open>\<^verbatim>\<open>updateLastLogin\<close> reads the clock twice, first for \<^verbatim>\<open>lastLoginAt\<close>.\<close>

definition User_updateLastLogin :: "date \<Rightarrow> date \<Rightarrow> User \<Rightarrow> js_error + User" where
  "User_updateLastLogin clock1 clock2 this =
     User_new (this \<lparr> u_lastLoginAt := Some clock1, u_updatedAt := clock2 \<rparr>)"

definition User_addRole :: "date \<Rightarrow> User \<Rightarrow> jsstring \<Rightarrow> js_error + User" where
  "User_addRole clock this role =
     (if role \<in> set (u_roles this)
      then Inl (DomainError (js ''Benutzer hat bereits die Rolle: '' @ role)
                  ''ROLE_ALREADY_EXISTS'')
      else User_new (this \<lparr> u_roles := u_roles this @ [role], u_updatedAt := clock \<rparr>))"

definition User_removeRole :: "date \<Rightarrow> User \<Rightarrow> jsstring \<Rightarrow> js_error + User" where
  "User_removeRole clock this role =
     (if role \<notin> set (u_roles this)
      then Inl (DomainError (js ''Benutzer hat die Rolle nicht: '' @ role) ''ROLE_NOT_FOUND'')
      else User_new (this \<lparr> u_roles := filter (\<lambda>r. r \<noteq> role) (u_roles this),
                             u_updatedAt := clock \<rparr>))"

text \<open>
  The invariant of the specification, in its words: the email matches the fixed pattern; a
  name is not empty, has 2 to 50 characters, and each of them is a letter, a space
  (U+0020), a hyphen or an apostrophe.
\<close>

definition name_invariant :: "jsstring \<Rightarrow> bool" where
  "name_invariant n \<longleftrightarrow>
     n \<noteq> [] \<and> 2 \<le> length n \<and> length n \<le> 50 \<and>
     list_all (\<lambda>c. isNameLetter c \<or> c = 32 \<or> c = 45 \<or> c = 39) n"

definition user_invariant :: "UserProps \<Rightarrow> bool" where
  "user_invariant u \<longleftrightarrow>
     regex_test EMAIL_REGEX (u_email u) \<and>
     name_invariant (u_firstName u) \<and> name_invariant (u_lastName u)"

text \<open>
  A string whose only white space is the space: what separates the pattern of
  \<^verbatim>\<open>validateName\<close>, which has \<^verbatim>\<open>\s\<close>, from the invariant.
\<close>

definition only_plain_spaces :: "jsstring \<Rightarrow> bool" where
  "only_plain_spaces n = list_all (\<lambda>c. isWhiteSpace c \<longrightarrow> c = 32) n"

text \<open>
  The fixtures of tests/unit/entities/User.test.ts: \<^verbatim>\<open>validUserData\<close>, and the user
  that \<^verbatim>\<open>User.create(validUserData)\<close> returns when the clock reads \<open>now\<close> and the id
  is \<^verbatim>\<open>'id-1'\<close>.
\<close>

definition validUserData :: CreateProps where
  "validUserData =
     \<lparr> c_email = js ''john.doe@example.com'', c_firstName = js ''John'', c_lastName = js ''Doe'',
       c_avatar = None, c_isActive = None, c_roles = None, c_lastLoginAt = None \<rparr>"

definition john :: "date \<Rightarrow> User" where
  "john now =
     \<lparr> u_id = js ''id-1'', u_email = js ''john.doe@example.com'', u_firstName = js ''John'',
       u_lastName = js ''Doe'', u_avatar = None, u_isActive = True, u_roles = [js ''user''],
       u_lastLoginAt = None, u_createdAt = now, u_updatedAt = now \<rparr>"

text \<open>The name \<^verbatim>\<open>'Anna\tMaria'\<close>, with a TAB (U+0009) between its parts.\<close>

definition Anna_TAB_Maria :: jsstring where
  "Anna_TAB_Maria = js ''Anna'' @ [9] @ js ''Maria''"

section \<open>Numbers\<close>

text \<open>
  A JavaScript \<^verbatim>\<open>number\<close> is a finite value, an infinity or \<^verbatim>\<open>NaN\<close>. The finite
  values are modelled as rationals with exact arithmetic (rounding and overflow are not
  modelled); the comparisons, which are all the validations use, are exact on doubles.
  Every comparison with \<^verbatim>\<open>NaN\<close> is false.
\<close>

datatype jsnum = NaN | Finite rat | PosInfinity | NegInfinity

fun js_lt :: "jsnum \<Rightarrow> jsnum \<Rightarrow> bool" where
  "js_lt NaN b = False"
| "js_lt a NaN = False"
| "js_lt (Finite x) (Finite y) = (x < y)"
| "js_lt (Finite x) PosInfinity = True"
| "js_lt (Finite x) NegInfinity = False"
| "js_lt PosInfinity b = False"
| "js_lt NegInfinity (Finite y) = True"
| "js_lt NegInfinity PosInfinity = True"
| "js_lt NegInfinity NegInfinity = False"

definition js_gt :: "jsnum \<Rightarrow> jsnum \<Rightarrow> bool" where
  "js_gt a b = js_lt b a"

text \<open>\<^verbatim>\<open>a <= b\<close> on numbers.\<close>

definition js_le :: "jsnum \<Rightarrow> jsnum \<Rightarrow> bool" where
  "js_le a b \<longleftrightarrow> a \<noteq> NaN \<and> b \<noteq> NaN \<and> \<not> js_lt b a"

fun js_add :: "jsnum \<Rightarrow> jsnum \<Rightarrow> jsnum" where
  "js_add NaN b = NaN"
| "js_add a NaN = NaN"
| "js_add (Finite x) (Finite y) = Finite (x + y)"
| "js_add (Finite x) b = b"
| "js_add a (Finite y) = a"
| "js_add PosInfinity PosInfinity = PosInfinity"
| "js_add NegInfinity NegInfinity = NegInfinity"
| "js_add PosInfinity NegInfinity = NaN"
| "js_add NegInfinity PosInfinity = NaN"

fun js_neg :: "jsnum \<Rightarrow> jsnum" where
  "js_neg NaN = NaN"
| "js_neg (Finite x) = Finite (- x)"
| "js_neg PosInfinity = NegInfinity"
| "js_neg NegInfinity = PosInfinity"

definition js_sub :: "jsnum \<Rightarrow> jsnum \<Rightarrow> jsnum" where
  "js_sub a b = js_add a (js_neg b)"

fun Number_isInteger :: "jsnum \<Rightarrow> bool" where
  "Number_isInteger (Finite x) = (of_int \<lfloor>x\<rfloor> = x)"
| "Number_isInteger a = False"

section \<open>Product entity (domain/entities/Product.ts)\<close>

record ProductProps =
  p_id :: jsstring
  p_name :: jsstring
  p_description :: jsstring
  p_price :: jsnum
  p_currency :: jsstring
  p_categoryId :: jsstring
  p_images :: "jsstring list"
  p_inStock :: jsnum
  p_isActive :: bool
  p_tags :: "jsstring list"
  p_createdAt :: date
  p_updatedAt :: date

type_synonym Product = ProductProps

definition Product_validateName :: "jsstring \<Rightarrow> js_error option" where
  "Product_validateName name =
     (if falsy name \<or> length (trim name) = 0
      then Some (ValidationError (js ''Produktname ist erforderlich'') ''name'')
      else if length name < 2
      then Some (ValidationError (js ''Produktname muss mindestens 2 Zeichen haben'') ''name'')
      else if length name > 100
      then Some (ValidationError (js ''Produktname darf maximal 100 Zeichen haben'') ''name'')
      else None)"

definition Product_validateDescription :: "jsstring \<Rightarrow> js_error option" where
  "Product_validateDescription description =
     (if falsy description \<or> length (trim description) = 0
      then Some (ValidationError (js ''Produktbeschreibung ist erforderlich'') ''description'')
      else if length description < 10
      then Some (ValidationError
             (js ''Produktbeschreibung muss mindestens 10 Zeichen haben'') ''description'')
      else if length description > 1000
      then Some (ValidationError
             (js ''Produktbeschreibung darf maximal 1000 Zeichen haben'') ''description'')
      else None)"

definition Product_validatePrice :: "jsnum \<Rightarrow> js_error option" where
  "Product_validatePrice price =
     (if js_lt price (Finite 0)
      then Some (ValidationError (js ''Preis muss mindestens 0 sein'') ''price'')
      else if js_gt price (Finite (99999999 / 100))
      then Some (ValidationError (js ''Preis ist zu hoch'') ''price'')
      else None)"

definition Product_validateStock :: "jsnum \<Rightarrow> js_error option" where
  "Product_validateStock stock =
     (if js_lt stock (Finite 0)
      then Some (ValidationError (js ''Lagerbestand muss mindestens 0 sein'') ''inStock'')
      else if \<not> Number_isInteger stock
      then Some (ValidationError (js ''Lagerbestand muss eine ganze Zahl sein'') ''inStock'')
      else None)"

definition Product_new :: "ProductProps \<Rightarrow> js_error + Product" where
  "Product_new props =
     (case Product_validateName (p_name props) of
        Some e \<Rightarrow> Inl e
      | None \<Rightarrow>
     (case Product_validateDescription (p_description props) of
        Some e \<Rightarrow> Inl e
      | None \<Rightarrow>
     (case Product_validatePrice (p_price props) of
        Some e \<Rightarrow> Inl e
      | None \<Rightarrow>
     (case Product_validateStock (p_inStock props) of
        Some e \<Rightarrow> Inl e
      | None \<Rightarrow> Inr props))))"

record ProductCreateProps =
  pc_name :: jsstring
  pc_description :: jsstring
  pc_price :: jsnum
  pc_currency :: jsstring
  pc_categoryId :: jsstring
  pc_images :: "jsstring list"
  pc_inStock :: jsnum
  pc_isActive :: bool
  pc_tags :: "jsstring list"

definition Product_create :: "date \<Rightarrow> jsstring \<Rightarrow> ProductCreateProps \<Rightarrow> js_error + Product" where
  "Product_create now uuid props =
     Product_new \<lparr>
       p_id = uuid,
       p_name = pc_name props,
       p_description = pc_description props,
       p_price = pc_price props,
       p_currency = pc_currency props,
       p_categoryId = pc_categoryId props,
       p_images = pc_images props,
       p_inStock = pc_inStock props,
       p_isActive = pc_isActive props,
       p_tags = pc_tags props,
       p_createdAt = now,
       p_updatedAt = now \<rparr>"

definition Product_fromPersistence :: "ProductProps \<Rightarrow> js_error + Product" where
  "Product_fromPersistence props = Product_new props"

record BasicInfoUpdates =
  bi_name :: "jsstring option"
  bi_description :: "jsstring option"
  bi_price :: "jsnum option"
  bi_categoryId :: "jsstring option"

definition Product_updateBasicInfo ::
  "date \<Rightarrow> Product \<Rightarrow> BasicInfoUpdates \<Rightarrow> js_error + Product" where
  "Product_updateBasicInfo clock this updates =
     (case (if truthy_opt (bi_name updates)
            then Product_validateName (the (bi_name updates)) else None) of
        Some e \<Rightarrow> Inl e
      | None \<Rightarrow>
     (case (if truthy_opt (bi_description updates)
            then Product_validateDescription (the (bi_description updates)) else None) of
        Some e \<Rightarrow> Inl e
      | None \<Rightarrow>
     (case (case bi_price updates of None \<Rightarrow> None | Some p \<Rightarrow> Product_validatePrice p) of
        Some e \<Rightarrow> Inl e
      | None \<Rightarrow>
          Product_new (this \<lparr>
            p_name := (case bi_name updates of None \<Rightarrow> p_name this | Some v \<Rightarrow> v),
            p_description :=
              (case bi_description updates of None \<Rightarrow> p_description this | Some v \<Rightarrow> v),
            p_price := (case bi_price updates of None \<Rightarrow> p_price this | Some v \<Rightarrow> v),
            p_categoryId :=
              (case bi_categoryId updates of None \<Rightarrow> p_categoryId this | Some v \<Rightarrow> v),
            p_updatedAt := clock \<rparr>))))"

definition Product_updateStock :: "date \<Rightarrow> Product \<Rightarrow> jsnum \<Rightarrow> js_error + Product" where
  "Product_updateStock clock this newStock =
     (case Product_validateStock newStock of
        Some e \<Rightarrow> Inl e
      | None \<Rightarrow> Product_new (this \<lparr> p_inStock := newStock, p_updatedAt := clock \<rparr>))"

definition Product_reduceStock :: "date \<Rightarrow> Product \<Rightarrow> jsnum \<Rightarrow> js_error + Product" where
  "Product_reduceStock clock this quantity =
     (if js_le quantity (Finite 0)
      then Inl (DomainError (js ''Menge muss positiv sein'') ''INVALID_QUANTITY'')
      else if js_lt (p_inStock this) quantity
      then Inl (DomainError (js (''Nicht gen'' @ [CHR 0xFC] @ ''gend Lagerbestand''))
                  ''INSUFFICIENT_STOCK'')
      else Product_new (this \<lparr> p_inStock := js_sub (p_inStock this) quantity,
                              p_updatedAt := clock \<rparr>))"

definition Product_addStock :: "date \<Rightarrow> Product \<Rightarrow> jsnum \<Rightarrow> js_error + Product" where
  "Product_addStock clock this quantity =
     (if js_le quantity (Finite 0)
      then Inl (DomainError (js ''Menge muss positiv sein'') ''INVALID_QUANTITY'')
      else Product_new (this \<lparr> p_inStock := js_add (p_inStock this) quantity,
                              p_updatedAt := clock \<rparr>))"

definition Product_addImage :: "date \<Rightarrow> Product \<Rightarrow> jsstring \<Rightarrow> js_error + Product" where
  "Product_addImage clock this imageUrl =
     (if falsy imageUrl \<or> length (trim imageUrl) = 0
      then Inl (ValidationError (js ''Bild-URL ist erforderlich'') ''imageUrl'')
      else if imageUrl \<in> set (p_images this)
      then Inl (DomainError (js ''Bild ist bereits vorhanden'') ''IMAGE_ALREADY_EXISTS'')
      else Product_new (this \<lparr> p_images := p_images this @ [imageUrl],
                              p_updatedAt := clock \<rparr>))"

definition Product_removeImage :: "date \<Rightarrow> Product \<Rightarrow> jsstring \<Rightarrow> js_error + Product" where
  "Product_removeImage clock this imageUrl =
     (if imageUrl \<notin> set (p_images this)
      then Inl (DomainError (js ''Bild nicht gefunden'') ''IMAGE_NOT_FOUND'')
      else Product_new (this \<lparr> p_images := filter (\<lambda>img. img \<noteq> imageUrl) (p_images this),
                              p_updatedAt := clock \<rparr>))"

text \<open>
  The tag methods compare with \<^verbatim>\<open>toLowerCase\<close> on strings of the caller; the Unicode
  case mapping is the parameter \<open>lc\<close>.
\<close>

definition Product_addTag ::
  "(jsstring \<Rightarrow> jsstring) \<Rightarrow> date \<Rightarrow> Product \<Rightarrow> jsstring \<Rightarrow> js_error + Product" where
  "Product_addTag lc clock this tag =
     (let normalizedTag = lc (trim tag) in
      if falsy normalizedTag
      then Inl (ValidationError (js ''Tag ist erforderlich'') ''tag'')
      else if list_ex (\<lambda>t. lc t = normalizedTag) (p_tags this)
      then Inl (DomainError (js ''Tag ist bereits vorhanden'') ''TAG_ALREADY_EXISTS'')
      else Product_new (this \<lparr> p_tags := p_tags this @ [trim tag], p_updatedAt := clock \<rparr>))"

text \<open>\<^verbatim>\<open>findIndex\<close>: the first index whose element satisfies the predicate, if any.\<close>

fun findIndex :: "('a \<Rightarrow> bool) \<Rightarrow> 'a list \<Rightarrow> nat option" where
  "findIndex P [] = None"
| "findIndex P (x # xs) =
     (if P x then Some 0 else map_option Suc (findIndex P xs))"

definition Product_removeTag ::
  "(jsstring \<Rightarrow> jsstring) \<Rightarrow> date \<Rightarrow> Product \<Rightarrow> jsstring \<Rightarrow> js_error + Product" where
  "Product_removeTag lc clock this tag =
     (case findIndex (\<lambda>t. lc t = lc tag) (p_tags this) of
        None \<Rightarrow> Inl (DomainError (js ''Tag nicht gefunden'') ''TAG_NOT_FOUND'')
      | Some tagIndex \<Rightarrow>
          Product_new (this \<lparr>
            p_tags := map fst (filter (\<lambda>(t, index). index \<noteq> tagIndex)
                        (zip (p_tags this) [0 ..< length (p_tags this)])),
            p_updatedAt := clock \<rparr>))"

definition Product_activate :: "date \<Rightarrow> Product \<Rightarrow> js_error + Product" where
  "Product_activate clock this =
     (if p_isActive this
      then Inl (DomainError (js ''Produkt ist bereits aktiv'') ''PRODUCT_ALREADY_ACTIVE'')
      else Product_new (this \<lparr> p_isActive := True, p_updatedAt := clock \<rparr>))"

definition Product_deactivate :: "date \<Rightarrow> Product \<Rightarrow> js_error + Product" where
  "Product_deactivate clock this =
     (if \<not> p_isActive this
      then Inl (DomainError (js ''Produkt ist bereits deaktiviert'') ''PRODUCT_ALREADY_INACTIVE'')
      else Product_new (this \<lparr> p_isActive := False, p_updatedAt := clock \<rparr>))"

text \<open>
  The invariant of the specification: the price is a number between 0 and 999999.99, the
  stock a non-negative integer, the name has 2 to 100 characters and the description 10 to
  1000.
\<close>

definition price_in_range :: "jsnum \<Rightarrow> bool" where
  "price_in_range p = (case p of Finite x \<Rightarrow> 0 \<le> x \<and> x \<le> 99999999 / 100 | _ \<Rightarrow> False)"

definition stock_valid :: "jsnum \<Rightarrow> bool" where
  "stock_valid s = (case s of Finite x \<Rightarrow> 0 \<le> x \<and> of_int \<lfloor>x\<rfloor> = x | _ \<Rightarrow> False)"

definition product_invariant :: "ProductProps \<Rightarrow> bool" where
  "product_invariant p \<longleftrightarrow>
     price_in_range (p_price p) \<and> stock_valid (p_inStock p) \<and>
     2 \<le> length (p_name p) \<and> length (p_name p) \<le> 100 \<and>
     10 \<le> length (p_description p) \<and> length (p_description p) \<le> 1000"

text \<open>A product whose price is \<^verbatim>\<open>NaN\<close>, as an argument of \<^verbatim>\<open>Product.create\<close>.\<close>

definition nan_widget :: ProductCreateProps where
  "nan_widget =
     \<lparr> pc_name = js ''Widget'', pc_description = js ''A useful widget'', pc_price = NaN,
       pc_currency = js ''EUR'', pc_categoryId = js ''cat-1'', pc_images = [],
       pc_inStock = Finite 5, pc_isActive = True, pc_tags = [] \<rparr>"

section \<open>Use cases (domain/use-cases)\<close>

subsection \<open>Dependencies and effects\<close>

text \<open>
  What a \<^verbatim>\<open>throw\<close> or a rejected promise carries: an instance of \<^verbatim>\<open>Error\<close>, or any
  other value (which the \<^verbatim>\<open>catch\<close> blocks only test with \<^verbatim>\<open>instanceof Error\<close>).
\<close>

datatype thrown = ThrownError js_error | ThrownValue jsstring

text \<open>
  A call of a dependency's method returns a promise that resolves (with a value of the
  declared type) or rejects, or throws before it returns one. Under \<^verbatim>\<open>await\<close> inside
  \<^verbatim>\<open>try\<close> the last two are the same.
\<close>

datatype 'a outcome = Resolves 'a | Rejects thrown | Throws thrown

fun await :: "'a outcome \<Rightarrow> thrown + 'a" where
  "await (Resolves v) = Inr v"
| "await (Rejects t) = Inl t"
| "await (Throws t) = Inl t"

text \<open>\<^verbatim>\<open>PaginationParams\<close>, \<^verbatim>\<open>FilterParams\<close> and \<^verbatim>\<open>PaginatedResponse<User>\<close>.\<close>

datatype sort_order = asc | desc

record PaginationParams =
  pg_page :: "jsnum option"
  pg_pageSize :: "jsnum option"
  pg_sortBy :: "jsstring option"
  pg_sortOrder :: "sort_order option"

record FilterParams =
  f_search :: "jsstring option"
  f_status :: "jsstring option"
  f_dateFrom :: "date option"
  f_dateTo :: "date option"

record PageInfo =
  pi_page :: jsnum
  pi_pageSize :: jsnum
  pi_total :: jsnum
  pi_totalPages :: jsnum
  pi_hasNext :: bool
  pi_hasPrevious :: bool

record PaginatedUsers =
  pr_data :: "User list"
  pr_success :: bool
  pr_message :: "jsstring option"
  pr_pagination :: PageInfo

text \<open>The entries \<^verbatim>\<open>{ old, new }\<close> that \<^verbatim>\<open>logChanges\<close> collects, by field name.\<close>

type_synonym changes = "(string \<times> jsstring option \<times> jsstring option) list"

text \<open>
  The methods of \<^verbatim>\<open>UserRepository\<close> that the use cases call, and the three services.
  Each use case calls a method at most once, so a method is a function of its arguments.
\<close>

record Dependencies =
  emailExists :: "jsstring \<Rightarrow> bool result outcome"
  save :: "User \<Rightarrow> User result outcome"
  findById :: "jsstring \<Rightarrow> User option result outcome"
  update :: "User \<Rightarrow> User result outcome"
  findAll :: "PaginationParams \<Rightarrow> FilterParams \<Rightarrow> PaginatedUsers result outcome"
  hash :: "jsstring \<Rightarrow> jsstring outcome"
  sendWelcomeEmail :: "jsstring \<Rightarrow> jsstring \<Rightarrow> unit outcome"
  auditLogger :: "(jsstring \<Rightarrow> changes \<Rightarrow> unit outcome) option"

text \<open>
  What an execution does to the outside, in order: the methods it invokes with their
  arguments, and what it writes with \<^verbatim>\<open>console.error\<close>.
\<close>

datatype effect =
    Call_emailExists jsstring
  | Call_hash jsstring
  | Call_save User
  | Call_sendWelcomeEmail jsstring jsstring
  | Call_findById jsstring
  | Call_update User
  | Call_logUserUpdate jsstring changes
  | Call_findAll PaginationParams FilterParams
  | Console_error thrown

text \<open>How the promise returned by an \<^verbatim>\<open>async\<close> method settles.\<close>

datatype 'a promise = Resolved 'a | Rejected thrown

text \<open>
  The \<^verbatim>\<open>catch\<close> block shared by the four \<^verbatim>\<open>execute\<close> methods:
  \<^verbatim>\<open>error instanceof Error ? error : new Error(fallback)\<close>.
\<close>

definition caught :: "string \<Rightarrow> thrown \<Rightarrow> 'a result" where
  "caught fallback t = Failure (case t of ThrownError e \<Rightarrow> e | ThrownValue v \<Rightarrow> JsError (js fallback))"

text \<open>
  An \<^verbatim>\<open>async\<close> method whose whole body is \<^verbatim>\<open>try { ... } catch (error) { return ... }\<close>:
  \<open>body\<close> is the outcome of the \<^verbatim>\<open>try\<close> block, \<open>Inl\<close> when something was thrown in
  it, with the effects up to that point.
\<close>

definition try_catch ::
  "string \<Rightarrow> (thrown + 'a result) \<times> effect list \<Rightarrow> 'a result promise \<times> effect list" where
  "try_catch fallback body =
     (case body of
        (Inr r, effs) \<Rightarrow> (Resolved r, effs)
      | (Inl t, effs) \<Rightarrow> (Resolved (caught fallback t), effs))"

subsection \<open>CreateUser\<close>

record CreateUserInput =
  cu_email :: jsstring
  cu_firstName :: jsstring
  cu_lastName :: jsstring
  cu_password :: jsstring

definition CreateUser_validateInput :: "CreateUserInput \<Rightarrow> unit result" where
  "CreateUser_validateInput input =
     (if falsy (cu_email input) \<or> length (trim (cu_email input)) = 0
      then Failure (ValidationError (js ''E-Mail ist erforderlich'') ''email'')
      else if \<not> regex_test EMAIL_REGEX (cu_email input)
      then Failure (ValidationError (js (''Ung'' @ [CHR 0xFC] @ ''ltige E-Mail-Adresse''))
                      ''email'')
      else if falsy (cu_firstName input) \<or> length (trim (cu_firstName input)) = 0
      then Failure (ValidationError (js ''Vorname ist erforderlich'') ''firstName'')
      else if falsy (cu_lastName input) \<or> length (trim (cu_lastName input)) = 0
      then Failure (ValidationError (js ''Nachname ist erforderlich'') ''lastName'')
      else if falsy (cu_password input) \<or> length (cu_password input) = 0
      then Failure (ValidationError (js ''Passwort ist erforderlich'') ''password'')
      else if \<not> falsy (cu_password input) \<and> length (cu_password input) < 8
      then Failure (ValidationError (js ''Passwort muss mindestens 8 Zeichen haben'')
                      ''password'')
      else Success ())"

text \<open>
  \<^verbatim>\<open>sendWelcomeEmailAsync\<close> is called and not awaited. It invokes the email service at
  once; when that throws or its promise rejects, the error is written to the console. Its
  own promise always resolves, and nothing of it reaches the caller.
\<close>

definition sendWelcomeEmailAsync :: "Dependencies \<Rightarrow> jsstring \<Rightarrow> jsstring \<Rightarrow> effect list" where
  "sendWelcomeEmailAsync deps email firstName =
     Call_sendWelcomeEmail email firstName #
     (case await (sendWelcomeEmail deps email firstName) of
        Inl t \<Rightarrow> [Console_error t]
      | Inr u \<Rightarrow> [])"

text \<open>
  The \<^verbatim>\<open>try\<close> block of \<^verbatim>\<open>CreateUserUseCase.execute\<close>. The output objects of
  the use cases have one field each (\<^verbatim>\<open>{ user }\<close>, \<^verbatim>\<open>{ users }\<close>) and are modelled
  by its value.
\<close>

definition CreateUser_body ::
  "Dependencies \<Rightarrow> date \<Rightarrow> jsstring \<Rightarrow> CreateUserInput \<Rightarrow> (thrown + User result) \<times> effect list" where
  "CreateUser_body deps now uuid input =
     (case CreateUser_validateInput input of
        Failure e \<Rightarrow> (Inr (Failure e), [])
      | Success u \<Rightarrow>
     (let effs1 = [Call_emailExists (cu_email input)] in
      case await (emailExists deps (cu_email input)) of
        Inl t \<Rightarrow> (Inl t, effs1)
      | Inr (Failure e) \<Rightarrow> (Inr (Failure e), effs1)
      | Inr (Success exists) \<Rightarrow>
          if exists
          then (Inr (Failure (DomainError (js ''E-Mail-Adresse ist bereits registriert'')
                                ''EMAIL_ALREADY_EXISTS'')), effs1)
          else
     (let effs2 = effs1 @ [Call_hash (cu_password input)] in
      case await (hash deps (cu_password input)) of
        Inl t \<Rightarrow> (Inl t, effs2)
      | Inr hashedPassword \<Rightarrow>
     (case User_create now uuid \<lparr>
             c_email = cu_email input,
             c_firstName = cu_firstName input,
             c_lastName = cu_lastName input,
             c_avatar = None,
             c_isActive = Some True,
             c_roles = Some [js ''user''],
             c_lastLoginAt = None \<rparr> of
        Inl e \<Rightarrow> (Inl (ThrownError e), effs2)
      | Inr user \<Rightarrow>
     (let effs3 = effs2 @ [Call_save user] in
      case await (save deps user) of
        Inl t \<Rightarrow> (Inl t, effs3)
      | Inr (Failure e) \<Rightarrow> (Inr (Failure e), effs3)
      | Inr (Success saved) \<Rightarrow>
          (Inr (Success saved),
           effs3 @ sendWelcomeEmailAsync deps (cu_email input) (cu_firstName input)))))))"

definition CreateUser_execute ::
  "Dependencies \<Rightarrow> date \<Rightarrow> jsstring \<Rightarrow> CreateUserInput \<Rightarrow> User result promise \<times> effect list" where
  "CreateUser_execute deps now uuid input =
     try_catch ''Unbekannter Fehler beim Erstellen des Benutzers''
       (CreateUser_body deps now uuid input)"

subsection \<open>GetUser\<close>

definition GetUser_body :: "Dependencies \<Rightarrow> jsstring \<Rightarrow> (thrown + User result) \<times> effect list" where
  "GetUser_body deps input_id =
     (if falsy input_id \<or> length (trim input_id) = 0
      then (Inr (Failure (DomainError (js ''Benutzer-ID ist erforderlich'') ''INVALID_INPUT'')), [])
      else
        (case await (findById deps input_id) of
           Inl t \<Rightarrow> (Inl t, [Call_findById input_id])
         | Inr (Failure e) \<Rightarrow> (Inr (Failure e), [Call_findById input_id])
         | Inr (Success None) \<Rightarrow>
             (Inr (Failure (NotFoundError ''Benutzer'' input_id)), [Call_findById input_id])
         | Inr (Success (Some user)) \<Rightarrow> (Inr (Success user), [Call_findById input_id])))"

definition GetUser_execute :: "Dependencies \<Rightarrow> jsstring \<Rightarrow> User result promise \<times> effect list" where
  "GetUser_execute deps input_id =
     try_catch ''Unbekannter Fehler beim Abrufen des Benutzers'' (GetUser_body deps input_id)"

subsection \<open>UpdateUser\<close>

record UserUpdates =
  uu_firstName :: "jsstring option"
  uu_lastName :: "jsstring option"
  uu_avatar :: "jsstring option"

record UpdateUserInput =
  ui_id :: jsstring
  ui_updates :: UserUpdates

text \<open>\<^verbatim>\<open>Object.keys(input.updates).length\<close>: the number of fields that are present.\<close>

definition updates_keys :: "UserUpdates \<Rightarrow> nat" where
  "updates_keys u =
     (if uu_firstName u = None then 0 else 1) + (if uu_lastName u = None then 0 else 1) +
     (if uu_avatar u = None then 0 else 1)"

text \<open>\<^verbatim>\<open>errors.join(', ')\<close>\<close>

fun join :: "jsstring list \<Rightarrow> jsstring" where
  "join [] = []"
| "join [x] = x"
| "join (x # y # ys) = x @ js '', '' @ join (y # ys)"

text \<open>
  \<open>valid_url\<close> says whether \<^verbatim>\<open>new URL(s)\<close> returns (the URL parser of the platform is
  a parameter).
\<close>

definition UpdateUser_validateInput :: "(jsstring \<Rightarrow> bool) \<Rightarrow> UpdateUserInput \<Rightarrow> unit result" where
  "UpdateUser_validateInput valid_url input =
     (let updates = ui_updates input;
          errors =
            (if falsy (ui_id input) \<or> length (trim (ui_id input)) = 0
             then [js ''Benutzer-ID ist erforderlich''] else []) @
            (if updates_keys updates = 0
             then [js (''Mindestens eine '' @ [CHR 0xC4] @ ''nderung ist erforderlich'')] else []) @
            (case uu_firstName updates of
               None \<Rightarrow> []
             | Some firstName \<Rightarrow>
                 (if length (trim firstName) = 0 then [js ''Vorname darf nicht leer sein''] else []) @
                 (if length firstName > 50
                  then [js ''Vorname darf maximal 50 Zeichen haben''] else [])) @
            (case uu_lastName updates of
               None \<Rightarrow> []
             | Some lastName \<Rightarrow>
                 (if length (trim lastName) = 0 then [js ''Nachname darf nicht leer sein''] else []) @
                 (if length lastName > 50
                  then [js ''Nachname darf maximal 50 Zeichen haben''] else [])) @
            (case uu_avatar updates of
               None \<Rightarrow> []
             | Some avatar \<Rightarrow>
                 (if length avatar > 0 \<and> \<not> valid_url avatar
                  then [js (''Avatar-URL ist ung'' @ [CHR 0xFC] @ ''ltig'')] else []))
      in if length errors > 0
         then Failure (DomainError (join errors) ''VALIDATION_ERROR'')
         else Success ())"

definition hasChanges :: "User \<Rightarrow> UserUpdates \<Rightarrow> bool" where
  "hasChanges currentUser updates =
     (if uu_firstName updates \<noteq> None \<and> the (uu_firstName updates) \<noteq> u_firstName currentUser
      then True
      else if uu_lastName updates \<noteq> None \<and> the (uu_lastName updates) \<noteq> u_lastName currentUser
      then True
      else if uu_avatar updates \<noteq> None \<and> uu_avatar updates \<noteq> u_avatar currentUser
      then True
      else False)"

text \<open>
  \<^verbatim>\<open>logChanges\<close>, called when there is an audit logger: it collects the fields that
  differ and, when there are some, awaits the logger inside its own \<^verbatim>\<open>try\<close>; an error
  of the logger goes to the console.
\<close>

definition logChanges ::
  "(jsstring \<Rightarrow> changes \<Rightarrow> unit outcome) \<Rightarrow> User \<Rightarrow> User \<Rightarrow> effect list" where
  "logChanges logUserUpdate oldUser newUser =
     (let changes =
            (if u_firstName oldUser \<noteq> u_firstName newUser
             then [(''firstName'', Some (u_firstName oldUser), Some (u_firstName newUser))]
             else []) @
            (if u_lastName oldUser \<noteq> u_lastName newUser
             then [(''lastName'', Some (u_lastName oldUser), Some (u_lastName newUser))]
             else []) @
            (if u_avatar oldUser \<noteq> u_avatar newUser
             then [(''avatar'', u_avatar oldUser, u_avatar newUser)]
             else [])
      in if length changes > 0
         then Call_logUserUpdate (u_id newUser) changes #
              (case await (logUserUpdate (u_id newUser) changes) of
                 Inl t \<Rightarrow> [Console_error t]
               | Inr u \<Rightarrow> [])
         else [])"

definition UpdateUser_body ::
  "Dependencies \<Rightarrow> (jsstring \<Rightarrow> bool) \<Rightarrow> date \<Rightarrow> UpdateUserInput \<Rightarrow>
     (thrown + User result) \<times> effect list" where
  "UpdateUser_body deps valid_url clock input =
     (case UpdateUser_validateInput valid_url input of
        Failure e \<Rightarrow> (Inr (Failure e), [])
      | Success u \<Rightarrow>
     (let effs1 = [Call_findById (ui_id input)] in
      case await (findById deps (ui_id input)) of
        Inl t \<Rightarrow> (Inl t, effs1)
      | Inr (Failure e) \<Rightarrow> (Inr (Failure e), effs1)
      | Inr (Success None) \<Rightarrow> (Inr (Failure (NotFoundError ''Benutzer'' (ui_id input))), effs1)
      | Inr (Success (Some currentUser)) \<Rightarrow>
          if \<not> hasChanges currentUser (ui_updates input)
          then (Inr (Success currentUser), effs1)
          else
     (case User_updateProfile clock currentUser \<lparr>
             up_firstName = uu_firstName (ui_updates input),
             up_lastName = uu_lastName (ui_updates input),
             up_email = None,
             up_avatar = uu_avatar (ui_updates input) \<rparr> of
        Inl e \<Rightarrow> (Inl (ThrownError e), effs1)
      | Inr updatedUser \<Rightarrow>
     (let effs2 = effs1 @ [Call_update updatedUser] in
      case await (update deps updatedUser) of
        Inl t \<Rightarrow> (Inl t, effs2)
      | Inr (Failure e) \<Rightarrow> (Inr (Failure e), effs2)
      | Inr (Success saved) \<Rightarrow>
          (Inr (Success saved),
           effs2 @ (case auditLogger deps of
                      None \<Rightarrow> []
                    | Some logUserUpdate \<Rightarrow> logChanges logUserUpdate currentUser updatedUser))))))"

definition UpdateUser_execute ::
  "Dependencies \<Rightarrow> (jsstring \<Rightarrow> bool) \<Rightarrow> date \<Rightarrow> UpdateUserInput \<Rightarrow>
     User result promise \<times> effect list" where
  "UpdateUser_execute deps valid_url clock input =
     try_catch ''Unbekannter Fehler beim Aktualisieren des Benutzers''
       (UpdateUser_body deps valid_url clock input)"

subsection \<open>ListUsers\<close>

record ListUsersInput =
  li_pagination :: PaginationParams
  li_filters :: "FilterParams option"
  li_includeInactive :: "bool option"

text \<open>
  \<^verbatim>\<open>x || d\<close> on an optional number: \<^verbatim>\<open>undefined\<close>, \<^verbatim>\<open>NaN\<close> and zero are falsy.
\<close>

definition num_or :: "jsnum option \<Rightarrow> jsnum \<Rightarrow> jsnum" where
  "num_or x d = (case x of None \<Rightarrow> d | Some n \<Rightarrow> if n = NaN \<or> n = Finite 0 then d else n)"

text \<open>\<^verbatim>\<open>Math.max\<close> and \<^verbatim>\<open>Math.min\<close> of two numbers: \<^verbatim>\<open>NaN\<close> when one of them is.\<close>

definition Math_max :: "jsnum \<Rightarrow> jsnum \<Rightarrow> jsnum" where
  "Math_max a b = (if a = NaN \<or> b = NaN then NaN else if js_lt a b then b else a)"

definition Math_min :: "jsnum \<Rightarrow> jsnum \<Rightarrow> jsnum" where
  "Math_min a b = (if a = NaN \<or> b = NaN then NaN else if js_lt b a then b else a)"

definition normalizePagination :: "PaginationParams \<Rightarrow> PaginationParams" where
  "normalizePagination pagination =
     \<lparr> pg_page = Some (Math_max (Finite 1) (num_or (pg_page pagination) (Finite 1))),
       pg_pageSize = Some (Math_min (Finite 100)
                    (Math_max (Finite 5) (num_or (pg_pageSize pagination) (Finite 10)))),
       pg_sortBy = Some (if truthy_opt (pg_sortBy pagination) then the (pg_sortBy pagination)
                      else js ''createdAt''),
       pg_sortOrder = Some (case pg_sortOrder pagination of None \<Rightarrow> desc | Some ord \<Rightarrow> ord) \<rparr>"

definition validateFilters :: "FilterParams option \<Rightarrow> unit result" where
  "validateFilters filters_opt =
     (case filters_opt of
        None \<Rightarrow> Success ()
      | Some filters \<Rightarrow>
          (let errors =
                 (if truthy_opt (f_search filters) \<and> length (the (f_search filters)) > 100
                  then [js ''Suchbegriff darf maximal 100 Zeichen haben''] else []) @
                 (if f_dateFrom filters \<noteq> None \<and> f_dateTo filters \<noteq> None \<and>
                     the (f_dateFrom filters) > the (f_dateTo filters)
                  then [js ''Startdatum muss vor dem Enddatum liegen''] else []) @
                 (if truthy_opt (f_status filters) \<and>
                     the (f_status filters) \<notin> set [js ''active'', js ''inactive'', js ''all'']
                  then [js (''Ung'' @ [CHR 0xFC] @ ''ltiger Status-Filter'')] else [])
           in if length errors > 0
              then Failure (DomainError (join errors) ''VALIDATION_ERROR'')
              else Success ()))"

text \<open>\<^verbatim>\<open>{ ...inputFilters }\<close> of a missing argument is the object without fields.\<close>

definition buildFilters :: "FilterParams option \<Rightarrow> bool option \<Rightarrow> FilterParams" where
  "buildFilters inputFilters includeInactive =
     (let filters = (case inputFilters of
                       None \<Rightarrow> \<lparr> f_search = None, f_status = None, f_dateFrom = None, f_dateTo = None \<rparr>
                     | Some f \<Rightarrow> f)
      in if includeInactive \<noteq> Some True \<and> \<not> truthy_opt (f_status filters)
         then filters \<lparr> f_status := Some (js ''active'') \<rparr>
         else filters)"

definition ListUsers_body ::
  "Dependencies \<Rightarrow> ListUsersInput \<Rightarrow> (thrown + PaginatedUsers result) \<times> effect list" where
  "ListUsers_body deps input =
     (let normalizedPagination = normalizePagination (li_pagination input) in
      case validateFilters (li_filters input) of
        Failure e \<Rightarrow> (Inr (Failure e), [])
      | Success u \<Rightarrow>
     (let filters = buildFilters (li_filters input) (li_includeInactive input);
          effs = [Call_findAll normalizedPagination filters]
      in case await (findAll deps normalizedPagination filters) of
           Inl t \<Rightarrow> (Inl t, effs)
         | Inr (Failure e) \<Rightarrow> (Inr (Failure e), effs)
         | Inr (Success users) \<Rightarrow> (Inr (Success users), effs)))"

definition ListUsers_execute ::
  "Dependencies \<Rightarrow> ListUsersInput \<Rightarrow> PaginatedUsers result promise \<times> effect list" where
  "ListUsers_execute deps input =
     try_catch ''Unbekannter Fehler beim Auflisten der Benutzer'' (ListUsers_body deps input)"

subsection \<open>Notions of the specification and fixtures\<close>

text \<open>
  The clamping of the specification, on each kind of number: the page is
  \<^verbatim>\<open>max(1, page or 1)\<close> and the page size \<^verbatim>\<open>min(100, max(5, pageSize or 10))\<close>, where
  a missing value, \<^verbatim>\<open>NaN\<close> and zero count as absent.
\<close>

definition clamped_page :: "jsnum option \<Rightarrow> jsnum" where
  "clamped_page x =
     (case x of
        Some (Finite v) \<Rightarrow> Finite (max 1 (if v = 0 then 1 else v))
      | Some PosInfinity \<Rightarrow> PosInfinity
      | _ \<Rightarrow> Finite 1)"

definition clamped_pageSize :: "jsnum option \<Rightarrow> jsnum" where
  "clamped_pageSize x =
     (case x of
        Some (Finite v) \<Rightarrow> Finite (min 100 (max 5 (if v = 0 then 10 else v)))
      | Some PosInfinity \<Rightarrow> Finite 100
      | Some NegInfinity \<Rightarrow> Finite 5
      | _ \<Rightarrow> Finite 10)"

text \<open>
  A status filter is supplied when the field is present and not the empty string (an
  empty status passes \<^verbatim>\<open>validateFilters\<close> as no status does).
\<close>

definition status_supplied :: "FilterParams \<Rightarrow> bool" where
  "status_supplied filters = (case f_status filters of None \<Rightarrow> False | Some s \<Rightarrow> s \<noteq> [])"

text \<open>The filters of an input: those given, or none.\<close>

definition input_filters :: "ListUsersInput \<Rightarrow> FilterParams" where
  "input_filters input =
     (case li_filters input of
        None \<Rightarrow> \<lparr> f_search = None, f_status = None, f_dateFrom = None, f_dateTo = None \<rparr>
      | Some f \<Rightarrow> f)"

text \<open>The invocations of dependencies among the effects.\<close>

fun is_call :: "effect \<Rightarrow> bool" where
  "is_call (Console_error t) = False"
| "is_call e = True"

text \<open>
  Dependencies as the unit tests mock them for a successful run
  (tests/unit/use-cases/CreateUser.test.ts), with the email service of the test
  \<^verbatim>\<open>'should create user even if email sending fails'\<close>; and dependencies that only fail.
\<close>

definition empty_page :: PaginatedUsers where
  "empty_page =
     \<lparr> pr_data = [], pr_success = True, pr_message = None,
       pr_pagination = \<lparr> pi_page = Finite 1, pi_pageSize = Finite 10, pi_total = Finite 0,
                         pi_totalPages = Finite 0, pi_hasNext = False, pi_hasPrevious = False \<rparr> \<rparr>"

definition mock_dependencies :: Dependencies where
  "mock_dependencies =
     \<lparr> emailExists = (\<lambda>email. Resolves (Success False)),
       save = (\<lambda>user. Resolves (Success user)),
       findById = (\<lambda>i. Resolves (Success (Some (john 1000)))),
       update = (\<lambda>user. Resolves (Success user)),
       findAll = (\<lambda>pagination filters. Resolves (Success empty_page)),
       hash = (\<lambda>password. Resolves (js ''hashedPassword123'')),
       sendWelcomeEmail =
         (\<lambda>email firstName. Rejects (ThrownError (JsError (js ''Email service unavailable'')))),
       auditLogger = None \<rparr>"

definition failing_dependencies :: Dependencies where
  "failing_dependencies =
     \<lparr> emailExists = (\<lambda>email. Rejects (ThrownValue (js ''down''))),
       save = (\<lambda>user. Throws (ThrownError (JsError (js ''down'')))),
       findById = (\<lambda>i. Throws (ThrownValue (js ''down''))),
       update = (\<lambda>user. Rejects (ThrownError (JsError (js ''down'')))),
       findAll = (\<lambda>pagination filters. Rejects (ThrownError (JsError (js ''down'')))),
       hash = (\<lambda>password. Rejects (ThrownError (JsError (js ''Hashing failed'')))),
       sendWelcomeEmail = (\<lambda>email firstName. Throws (ThrownValue (js ''down''))),
       auditLogger = Some (\<lambda>userId changes. Rejects (ThrownValue (js ''down''))) \<rparr>"

text \<open>\<^verbatim>\<open>validInput\<close> of the unit tests of CreateUser.\<close>

definition validInput :: CreateUserInput where
  "validInput =
     \<lparr> cu_email = js ''john.doe@example.com'', cu_firstName = js ''John'',
       cu_lastName = js ''Doe'', cu_password = js ''securePassword123'' \<rparr>"

section \<open>HTTP client (infrastructure/api/HttpClient.ts)\<close>

subsection \<open>Values of the platform\<close>

text \<open>What \<^verbatim>\<open>JSON.parse\<close> returns.\<close>

datatype json =
    JNull
  | JBool bool
  | JNumber jsnum
  | JString jsstring
  | JArray "json list"
  | JObject "(jsstring \<times> json) list"

text \<open>\<^verbatim>\<open>key in data\<close> and \<^verbatim>\<open>data[key]\<close> on a parsed value (an array has no such keys).\<close>

fun member :: "json \<Rightarrow> string \<Rightarrow> json option" where
  "member (JObject members) key = map_of members (js key)"
| "member j key = None"

fun json_truthy :: "json \<Rightarrow> bool" where
  "json_truthy JNull = False"
| "json_truthy (JBool b) = b"
| "json_truthy (JNumber n) = (n \<noteq> NaN \<and> n \<noteq> Finite 0)"
| "json_truthy (JString s) = (s \<noteq> [])"
| "json_truthy (JArray xs) = True"
| "json_truthy (JObject members) = True"

text \<open>\<^verbatim>\<open>startsWith\<close> and \<^verbatim>\<open>includes\<close> on strings.\<close>

fun startsWith :: "jsstring \<Rightarrow> jsstring \<Rightarrow> bool" where
  "startsWith s [] = True"
| "startsWith [] (p # ps) = False"
| "startsWith (c # cs) (p # ps) = (c = p \<and> startsWith cs ps)"

fun str_includes :: "jsstring \<Rightarrow> jsstring \<Rightarrow> bool" where
  "str_includes [] sub = (sub = [])"
| "str_includes (c # cs) sub = (startsWith (c # cs) sub \<or> str_includes cs sub)"

text \<open>A non-negative integer in a template literal: its decimal digits.\<close>

function decimal :: "nat \<Rightarrow> string" where
  "decimal n = (if n < 10 then [char_of (48 + n)] else decimal (n div 10) @ [char_of (48 + n mod 10)])"
  by pat_completeness auto
termination
  by (relation "measure id") auto

text \<open>
  The signal a \<^verbatim>\<open>fetch\<close> listens to: the one of the \<^verbatim>\<open>AbortController\<close> that
  \<^verbatim>\<open>executeWithRetry\<close> creates for the attempt, which its timer aborts after the given
  number of milliseconds, or a signal that the caller supplied.
\<close>

datatype signal = ControllerSignal nat | CallerSignal

text \<open>
  What the client can catch: an instance of \<^verbatim>\<open>Error\<close> (whether it is a
  \<^verbatim>\<open>TypeError\<close>, its name and its message; a \<^verbatim>\<open>DOMException\<close> is one too), the
  \<^verbatim>\<open>ApiErrorResponse\<close> object that \<^verbatim>\<open>handleResponse\<close> throws, or another value.
\<close>

datatype api_error =
    ApiError string jsstring "json option"
  | ParsedError json

datatype http_thrown =
    ErrorObject bool jsstring jsstring
  | ThrownApiError api_error
  | ThrownOther

record Response =
  rs_status :: nat
  rs_text :: "jsstring option"

text \<open>\<^verbatim>\<open>response.ok\<close>: the status is in the range 200 to 299.\<close>

definition response_ok :: "Response \<Rightarrow> bool" where
  "response_ok r \<longleftrightarrow> 200 \<le> rs_status r \<and> rs_status r \<le> 299"

record RequestInit =
  ri_method :: string
  ri_headers :: "jsstring \<rightharpoonup> jsstring"
  ri_signal :: "signal option"
  ri_body :: "jsstring option"

text \<open>
  How a call of \<^verbatim>\<open>fetch\<close> ends: with a response (whose \<^verbatim>\<open>text()\<close> gives a string or
  rejects), with a rejection, or never.
\<close>

datatype fetch_result = Responds Response | FetchRejects http_thrown | NeverSettles

text \<open>
  The platform: \<^verbatim>\<open>fetch\<close>, by the number of the call (a later attempt can end
  differently), \<^verbatim>\<open>JSON.parse\<close> (\<open>None\<close> when it throws) and \<^verbatim>\<open>JSON.stringify\<close>.
\<close>

record Platform =
  fetch :: "nat \<Rightarrow> jsstring \<Rightarrow> RequestInit \<Rightarrow> fetch_result"
  JSON_parse :: "jsstring \<Rightarrow> json option"
  JSON_stringify :: "json \<Rightarrow> jsstring"

subsection \<open>The client\<close>

text \<open>
  The options of the client and of a request. Durations are natural numbers of
  milliseconds; \<^verbatim>\<open>retryAttempts\<close> is any number. The methods \<^verbatim>\<open>get\<close>, \<^verbatim>\<open>post\<close>, \<^verbatim>\<open>put\<close>,
  \<^verbatim>\<open>patch\<close> and \<^verbatim>\<open>delete\<close> are \<^verbatim>\<open>request\<close> with their method name.
\<close>

record HttpClientOptions =
  o_baseUrl :: "jsstring option"
  o_timeout :: "nat option"
  o_headers :: "(jsstring \<rightharpoonup> jsstring) option"
  o_retryAttempts :: "jsnum option"
  o_retryDelay :: "nat option"

record RequestOptions =
  ro_headers :: "(jsstring \<rightharpoonup> jsstring) option"
  ro_timeout :: "nat option"
  ro_signal :: "signal option"

record HttpClient =
  baseUrl :: jsstring
  timeout :: nat
  retryAttempts :: jsnum
  retryDelay :: nat
  defaultHeaders :: "jsstring \<rightharpoonup> jsstring"

text \<open>
  \<^verbatim>\<open>x || d\<close> on an optional duration and on an optional string (on an optional
  number it is \<open>num_or\<close>).
\<close>

definition nat_or :: "nat option \<Rightarrow> nat \<Rightarrow> nat" where
  "nat_or x d = (case x of None \<Rightarrow> d | Some n \<Rightarrow> if n = 0 then d else n)"

definition str_or :: "jsstring option \<Rightarrow> jsstring \<Rightarrow> jsstring" where
  "str_or x d = (case x of None \<Rightarrow> d | Some s \<Rightarrow> if s = [] then d else s)"

text \<open>
  The constructor, with \<^verbatim>\<open>API_CONFIG\<close> of shared/constants/app.ts: timeout 10000,
  retryAttempts 3, retryDelay 1000; \<open>env_baseUrl\<close> is \<^verbatim>\<open>VITE_API_BASE_URL\<close>.
\<close>

definition API_CONFIG_baseUrl :: "jsstring option \<Rightarrow> jsstring" where
  "API_CONFIG_baseUrl env_baseUrl = str_or env_baseUrl (js ''https://api.example.com'')"

definition HttpClient_new :: "jsstring option \<Rightarrow> HttpClientOptions \<Rightarrow> HttpClient" where
  "HttpClient_new env_baseUrl options =
     \<lparr> baseUrl = str_or (o_baseUrl options) (API_CONFIG_baseUrl env_baseUrl),
       timeout = nat_or (o_timeout options) 10000,
       retryAttempts = num_or (o_retryAttempts options) (Finite 3),
       retryDelay = nat_or (o_retryDelay options) 1000,
       defaultHeaders =
         [js ''Content-Type'' \<mapsto> js ''application/json'', js ''Accept'' \<mapsto> js ''application/json'']
         ++ (case o_headers options of None \<Rightarrow> Map.empty | Some h \<Rightarrow> h) \<rparr>"

definition buildUrl :: "HttpClient \<Rightarrow> jsstring \<Rightarrow> jsstring" where
  "buildUrl this endpoint =
     (if startsWith endpoint (js ''http'') then endpoint
      else
        (let cleanBase = (if baseUrl this \<noteq> [] \<and> last (baseUrl this) = 47
                          then butlast (baseUrl this) else baseUrl this);
             cleanEndpoint = (case endpoint of [] \<Rightarrow> [] | c # cs \<Rightarrow> if c = 47 then cs else c # cs)
         in cleanBase @ js ''/'' @ cleanEndpoint))"

definition getErrorMessage :: "nat \<Rightarrow> jsstring" where
  "getErrorMessage status =
     (if status = 400 then js (''Ung'' @ [CHR 0xFC] @ ''ltige Anfrage'')
      else if status = 401 then js ''Nicht autorisiert''
      else if status = 403 then js ''Zugriff verweigert''
      else if status = 404 then js ''Ressource nicht gefunden''
      else if status = 500 then js ''Interner Serverfehler''
      else js (''HTTP-Fehler: '' @ decimal status))"

definition getSuccessMessage :: "nat \<Rightarrow> jsstring option" where
  "getSuccessMessage status =
     (if status = 201 then Some (js ''Erfolgreich erstellt'')
      else if status = 204 then Some (js (''Erfolgreich gel'' @ [CHR 0xF6] @ ''scht''))
      else None)"

definition isApiResponse :: "json \<Rightarrow> bool" where
  "isApiResponse data \<longleftrightarrow>
     member data ''data'' \<noteq> None \<and>
     (case member data ''success'' of Some (JBool b) \<Rightarrow> True | _ \<Rightarrow> False)"

definition isApiErrorResponse :: "json \<Rightarrow> bool" where
  "isApiErrorResponse data \<longleftrightarrow>
     member data ''error'' \<noteq> None \<and> member data ''success'' = Some (JBool False)"

definition createHttpError :: "nat \<Rightarrow> json \<Rightarrow> api_error" where
  "createHttpError status data =
     (let message = getErrorMessage status in
      if isApiErrorResponse data then ParsedError data
      else ApiError (''HTTP_'' @ decimal status) message (Some data))"

text \<open>
  What \<^verbatim>\<open>handleResponse\<close> returns: the parsed body itself when it already has the
  \<^verbatim>\<open>ApiResponse\<close> format, or the body wrapped with \<^verbatim>\<open>success: true\<close> and a message.
\<close>

datatype api_response = Envelope json | Wrapped json "jsstring option"

definition handleResponse :: "Platform \<Rightarrow> Response \<Rightarrow> http_thrown + api_response" where
  "handleResponse pf response =
     (let responseData =
            (case rs_text response of
               None \<Rightarrow> JNull
             | Some text \<Rightarrow>
                 if text = [] then JNull
                 else (case JSON_parse pf text of None \<Rightarrow> JNull | Some v \<Rightarrow> v))
      in if \<not> response_ok response
         then Inl (ThrownApiError (createHttpError (rs_status response) responseData))
         else if isApiResponse responseData then Inr (Envelope responseData)
         else Inr (Wrapped responseData (getSuccessMessage (rs_status response))))"

definition isFetchTypeError :: "http_thrown \<Rightarrow> bool" where
  "isFetchTypeError error =
     (case error of
        ErrorObject isTypeError name message \<Rightarrow> isTypeError \<and> str_includes message (js ''fetch'')
      | _ \<Rightarrow> False)"

definition isAbortError :: "http_thrown \<Rightarrow> bool" where
  "isAbortError error =
     (case error of
        ErrorObject isTypeError name message \<Rightarrow> name = js ''AbortError''
      | _ \<Rightarrow> False)"

definition createApiError :: "http_thrown \<Rightarrow> api_error" where
  "createApiError error =
     (if isFetchTypeError error
      then ApiError ''NETWORK_ERROR''
             (js (''Netzwerkfehler: Bitte pr'' @ [CHR 0xFC] @ ''fen Sie Ihre Internetverbindung''))
             None
      else if isAbortError error
      then ApiError ''TIMEOUT_ERROR'' (js ''Anfrage-Timeout: Der Server antwortet nicht'') None
      else ApiError ''UNKNOWN_ERROR''
             (case error of
                ErrorObject isTypeError name message \<Rightarrow> message
              | _ \<Rightarrow> js ''Unbekannter Fehler'')
             None)"

definition shouldRetry :: "http_thrown \<Rightarrow> bool" where
  "shouldRetry error =
     (if isFetchTypeError error then True
      else if isAbortError error then True
      else False)"

text \<open>How the promise of a request ends, and what the client does on the way.\<close>

datatype http_result = Fulfilled api_response | RejectedWith api_error | Pending

datatype http_event = Fetch jsstring signal | Delay nat

text \<open>
  The \<^verbatim>\<open>try\<close> block of \<^verbatim>\<open>executeWithRetry\<close> for the call of \<^verbatim>\<open>fetch\<close> number
  \<open>n\<close>: the signal is the caller's when there is one, else the controller's;
  \<open>None\<close> when \<^verbatim>\<open>fetch\<close> never settles, \<open>Inl\<close> what the block throws.
\<close>

definition used_signal :: "HttpClient \<Rightarrow> RequestInit \<Rightarrow> signal" where
  "used_signal this init =
     (case ri_signal init of Some s \<Rightarrow> s | None \<Rightarrow> ControllerSignal (timeout this))"

definition attempt ::
  "HttpClient \<Rightarrow> Platform \<Rightarrow> nat \<Rightarrow> jsstring \<Rightarrow> RequestInit \<Rightarrow> (http_thrown + api_response) option" where
  "attempt this pf n url init =
     (case fetch pf n url (init \<lparr> ri_signal := Some (used_signal this init) \<rparr>) of
        NeverSettles \<Rightarrow> None
      | FetchRejects error \<Rightarrow> Some (Inl error)
      | Responds response \<Rightarrow> Some (handleResponse pf response))"

text \<open>
  \<^verbatim>\<open>executeWithRetry\<close>; \<open>n\<close> counts the calls of \<^verbatim>\<open>fetch\<close> made before. The method
  calls itself as long as \<^verbatim>\<open>attemptsLeft > 0\<close> and the error is one to retry, which need
  not end (\<^verbatim>\<open>Infinity - 1\<close> is \<^verbatim>\<open>Infinity\<close>): \<open>None\<close> is the run that retries for ever.
  A run that ends gives how the promise ends and what the client did.
\<close>

partial_function (option) executeWithRetry ::
  "HttpClient \<Rightarrow> Platform \<Rightarrow> nat \<Rightarrow> jsstring \<Rightarrow> RequestInit \<Rightarrow> jsnum \<Rightarrow>
     (http_result \<times> http_event list) option"
  where
  "executeWithRetry this pf n url init attemptsLeft =
     (case attempt this pf n url init of
        None \<Rightarrow> Some (Pending, [Fetch url (used_signal this init)])
      | Some (Inr response) \<Rightarrow> Some (Fulfilled response, [Fetch url (used_signal this init)])
      | Some (Inl error) \<Rightarrow>
          if js_gt attemptsLeft (Finite 0) \<and> shouldRetry error
          then Option.bind
                 (executeWithRetry this pf (Suc n) url init (js_sub attemptsLeft (Finite 1)))
                 (\<lambda>r. Some (fst r,
                    Fetch url (used_signal this init) # Delay (retryDelay this) # snd r))
          else Some (RejectedWith (createApiError error), [Fetch url (used_signal this init)]))"

definition request ::
  "HttpClient \<Rightarrow> Platform \<Rightarrow> string \<Rightarrow> jsstring \<Rightarrow> json option \<Rightarrow> RequestOptions \<Rightarrow>
     (http_result \<times> http_event list) option" where
  "request this pf method url data options =
     (let fullUrl = buildUrl this url;
          headers = defaultHeaders this ++
                    (case ro_headers options of None \<Rightarrow> Map.empty | Some h \<Rightarrow> h);
          requestInit = \<lparr> ri_method = method, ri_headers = headers,
                          ri_signal = ro_signal options,
                          ri_body =
                            (case data of
                               None \<Rightarrow> None
                             | Some d \<Rightarrow>
                                 if json_truthy d \<and> method \<in> set [''POST'', ''PUT'', ''PATCH'']
                                 then Some (JSON_stringify pf d) else None) \<rparr>
      in executeWithRetry this pf 0 fullUrl requestInit (retryAttempts this))"

text \<open>
  A platform for the case the timeout is there for: the server never answers and the
  caller never aborts. A \<^verbatim>\<open>fetch\<close> that listens to the signal of a controller is
  rejected with an \<^verbatim>\<open>AbortError\<close> when the timer fires; one that listens to the
  caller's signal never settles.
\<close>

definition silent_server :: Platform where
  "silent_server =
     \<lparr> fetch = (\<lambda>n url init.
         case ri_signal init of
           Some (ControllerSignal ms) \<Rightarrow>
             FetchRejects (ErrorObject False (js ''AbortError'') (js ''The operation was aborted.''))
         | _ \<Rightarrow> NeverSettles),
       JSON_parse = (\<lambda>text. None),
       JSON_stringify = (\<lambda>v. []) \<rparr>"


definition default_client :: HttpClient where
  "default_client =
     HttpClient_new None
       \<lparr> o_baseUrl = None, o_timeout = None, o_headers = None, o_retryAttempts = None,
         o_retryDelay = None \<rparr>"


text \<open>
  A platform whose network is down: every \<^verbatim>\<open>fetch\<close> fails with the \<^verbatim>\<open>TypeError\<close> of
  a failed \<^verbatim>\<open>fetch\<close>. And a platform where the caller has aborted the signal it
  supplied: a \<^verbatim>\<open>fetch\<close> that listens to that signal is rejected with an
  \<^verbatim>\<open>AbortError\<close> at once, and no timer is involved.
\<close>

definition dead_network :: Platform where
  "dead_network =
     \<lparr> fetch = (\<lambda>n url init.
         FetchRejects (ErrorObject True (js ''TypeError'') (js ''Failed to fetch''))),
       JSON_parse = (\<lambda>text. None),
       JSON_stringify = (\<lambda>v. []) \<rparr>"


section \<open>Properties of the User entity\<close>

lemma trim_Nil: "trim [] = []"
  by (simp add: trim_def)

lemma plus_rests_Nil_iff: "[] \<in> set (plus_rests p s) \<longleftrightarrow> s \<noteq> [] \<and> list_all p s"
  by (induction s) auto

lemma regex_test_NAME_REGEX:
  "regex_test NAME_REGEX n \<longleftrightarrow> n \<noteq> [] \<and> list_all name_class n"
  by (simp add: regex_test_def NAME_REGEX_def plus_rests_Nil_iff)

lemma User_validateName_None_iff:
  "User_validateName n f = None \<longleftrightarrow>
     trim n \<noteq> [] \<and> 2 \<le> length n \<and> length n \<le> 50 \<and> list_all name_class n"
  by (auto simp: User_validateName_def Let_def falsy_def regex_test_NAME_REGEX trim_Nil)

text \<open>
  What \<^verbatim>\<open>validateName\<close> accepts and the invariant differ in the white space only: a
  name of the invariant is accepted unless it consists of spaces, and an accepted name
  whose white space is the plain space satisfies the invariant.
\<close>

lemma name_invariant_accepted:
  "name_invariant n \<Longrightarrow> trim n \<noteq> [] \<Longrightarrow> User_validateName n f = None"
  by (auto simp: User_validateName_None_iff name_invariant_def name_class_def isWhiteSpace_def
      list_all_iff)

lemma accepted_name_invariant:
  "User_validateName n f = None \<Longrightarrow> only_plain_spaces n \<Longrightarrow> name_invariant n"
  by (auto simp: User_validateName_None_iff name_invariant_def name_class_def
      only_plain_spaces_def list_all_iff trim_Nil)

lemma User_validateName_is_ValidationError:
  "User_validateName n f = Some e \<Longrightarrow> isValidationError e"
  by (auto simp: User_validateName_def Let_def split: if_splits)

lemma User_validateEmail_None_iff:
  "User_validateEmail m = None \<longleftrightarrow> trim m \<noteq> [] \<and> regex_test EMAIL_REGEX m"
  by (auto simp: User_validateEmail_def falsy_def trim_Nil)

lemma User_validateEmail_is_ValidationError:
  "User_validateEmail m = Some e \<Longrightarrow> isValidationError e"
  by (auto simp: User_validateEmail_def split: if_splits)

lemma User_new_Inr_iff:
  "User_new p = Inr u \<longleftrightarrow>
     u = p \<and> User_validateEmail (u_email p) = None \<and>
     User_validateName (u_firstName p) ''Vorname'' = None \<and>
     User_validateName (u_lastName p) ''Nachname'' = None"
  by (auto simp: User_new_def split: option.splits)

lemma User_new_invariant:
  "User_new p = Inr u \<Longrightarrow> only_plain_spaces (u_firstName u) \<Longrightarrow>
   only_plain_spaces (u_lastName u) \<Longrightarrow> user_invariant u"
  by (auto simp: User_new_Inr_iff user_invariant_def User_validateEmail_None_iff
      intro: accepted_name_invariant)

lemma User_new_Inl_ValidationError: "User_new p = Inl e \<Longrightarrow> isValidationError e"
  by (auto simp: User_new_def split: option.splits
      dest: User_validateEmail_is_ValidationError User_validateName_is_ValidationError)

lemma User_new_valid:
  "User_validateEmail (u_email p) = None \<Longrightarrow>
   User_validateName (u_firstName p) ''Vorname'' = None \<Longrightarrow>
   User_validateName (u_lastName p) ''Nachname'' = None \<Longrightarrow> User_new p = Inr p"
  by (simp add: User_new_def)

lemma User_new_Inr_eq: "User_new p = Inr u \<Longrightarrow> u = p"
  by (simp add: User_new_Inr_iff)

lemma User_updateProfile_Inr_new:
  "User_updateProfile clock this updates = Inr u \<Longrightarrow>
   User_new ((merge_updates this updates)
     \<lparr> u_updatedAt := (if clock = u_updatedAt this then clock + 1 else clock) \<rparr>) = Inr u"
  unfolding User_updateProfile_def Let_def
  by (auto split: option.splits)

lemma User_updateProfile_Inr:
  "User_updateProfile clock this updates = Inr u \<Longrightarrow> \<exists>p. User_new p = Inr u"
  using User_updateProfile_Inr_new by blast

lemma User_changeEmail_Inr:
  "User_changeEmail clock this newEmail = Inr u \<Longrightarrow> \<exists>p. User_new p = Inr u"
  by (auto simp: User_changeEmail_def split: option.splits if_splits)

lemma User_activate_Inr: "User_activate clock this = Inr u \<Longrightarrow> \<exists>p. User_new p = Inr u"
  by (auto simp: User_activate_def split: if_splits)

lemma User_deactivate_Inr: "User_deactivate clock this = Inr u \<Longrightarrow> \<exists>p. User_new p = Inr u"
  by (auto simp: User_deactivate_def split: if_splits)

lemma User_addRole_Inr: "User_addRole clock this role = Inr u \<Longrightarrow> \<exists>p. User_new p = Inr u"
  by (auto simp: User_addRole_def split: if_splits)

lemma User_removeRole_Inr: "User_removeRole clock this role = Inr u \<Longrightarrow> \<exists>p. User_new p = Inr u"
  by (auto simp: User_removeRole_def split: if_splits)

lemmas char_class_defs = not_space_at_def isWhiteSpace_def name_class_def isNameLetter_def

lemma email_john: "User_validateEmail (js ''john.doe@example.com'') = None"
  by (simp add: User_validateEmail_def regex_test_def EMAIL_REGEX_def js_def char_class_defs
      trim_def falsy_def)

lemma email_new: "User_validateEmail (js ''newemail@example.com'') = None"
  by (simp add: User_validateEmail_def regex_test_def EMAIL_REGEX_def js_def char_class_defs
      trim_def falsy_def)

lemma email_invalid: "\<not> regex_test EMAIL_REGEX (js ''invalid-email'')"
  by (simp add: regex_test_def EMAIL_REGEX_def js_def char_class_defs)

lemma name_John: "User_validateName (js ''John'') f = None"
  by (simp add: User_validateName_def regex_test_NAME_REGEX js_def char_class_defs trim_def
      falsy_def Let_def)

lemma name_Doe: "User_validateName (js ''Doe'') f = None"
  by (simp add: User_validateName_def regex_test_NAME_REGEX js_def char_class_defs trim_def
      falsy_def Let_def)

lemma name_Jane: "User_validateName (js ''Jane'') f = None"
  by (simp add: User_validateName_def regex_test_NAME_REGEX js_def char_class_defs trim_def
      falsy_def Let_def)

lemma js_inject: "js a = js b \<longleftrightarrow> a = b"
  by (simp add: js_def inj_map_eq_map inj_on_def)

lemma js_Nil_iff: "js a = [] \<longleftrightarrow> a = []"
  by (simp add: js_def)

lemmas user_eval = User_new_def john_def email_john email_new name_John name_Doe name_Jane
  js_inject js_Nil_iff truthy_opt_def falsy_def

text \<open>
  Every operation that returns a User ends in the constructor, so what it returns has
  passed \<^verbatim>\<open>validateEmail\<close> and \<^verbatim>\<open>validateName\<close>.
\<close>

lemma user_operations_end_in_constructor:
  "(User_create now uuid cprops = Inr u \<longrightarrow> (\<exists>p. User_new p = Inr u)) \<and>
   (User_fromPersistence props = Inr u \<longrightarrow> (\<exists>p. User_new p = Inr u)) \<and>
   (User_updateProfile clock this updates = Inr u \<longrightarrow> (\<exists>p. User_new p = Inr u)) \<and>
   (User_changeEmail clock this newEmail = Inr u \<longrightarrow> (\<exists>p. User_new p = Inr u)) \<and>
   (User_activate clock this = Inr u \<longrightarrow> (\<exists>p. User_new p = Inr u)) \<and>
   (User_deactivate clock this = Inr u \<longrightarrow> (\<exists>p. User_new p = Inr u)) \<and>
   (User_updateLastLogin clock1 clock2 this = Inr u \<longrightarrow> (\<exists>p. User_new p = Inr u)) \<and>
   (User_addRole clock this role = Inr u \<longrightarrow> (\<exists>p. User_new p = Inr u)) \<and>
   (User_removeRole clock this role = Inr u \<longrightarrow> (\<exists>p. User_new p = Inr u))"
proof (intro conjI impI)
  show "User_create now uuid cprops = Inr u \<Longrightarrow> \<exists>p. User_new p = Inr u"
    unfolding User_create_def by blast
  show "User_fromPersistence props = Inr u \<Longrightarrow> \<exists>p. User_new p = Inr u"
    unfolding User_fromPersistence_def by blast
  show "User_updateLastLogin clock1 clock2 this = Inr u \<Longrightarrow> \<exists>p. User_new p = Inr u"
    unfolding User_updateLastLogin_def by blast
qed (fact User_updateProfile_Inr User_changeEmail_Inr User_activate_Inr User_deactivate_Inr
    User_addRole_Inr User_removeRole_Inr)+

lemma anna_accepted: "User_validateName Anna_TAB_Maria f = None"
  by (simp add: User_validateName_def regex_test_NAME_REGEX Anna_TAB_Maria_def js_def
      char_class_defs trim_def falsy_def Let_def)

lemma anna_violates: "name_invariant Anna_TAB_Maria = False"
  by (simp add: name_invariant_def Anna_TAB_Maria_def js_def isNameLetter_def)

text \<open>
  Claim C3 asks that every User has names of letters, spaces, hyphens and apostrophes
  only, and that props which violate this make the constructor throw a
  \<^verbatim>\<open>ValidationError\<close>. The message of \<^verbatim>\<open>validateName\<close> says the same, but its pattern
  has \<^verbatim>\<open>\s\<close> where a space is meant, so a name with a TAB (or a line feed, a no-break
  space, ...) is accepted: \<^verbatim>\<open>User.fromPersistence\<close> and \<^verbatim>\<open>User.create\<close> return a User
  with the first name \<^verbatim>\<open>'Anna\tMaria'\<close>, which violates the invariant.
\<close>

theorem User_accepts_tab_in_name:
  "User_fromPersistence ((john 1000) \<lparr> u_firstName := Anna_TAB_Maria \<rparr>) =
     Inr ((john 1000) \<lparr> u_firstName := Anna_TAB_Maria \<rparr>) \<and>
   User_create 1000 (js ''id-1'') (validUserData \<lparr> c_firstName := Anna_TAB_Maria \<rparr>) =
     Inr ((john 1000) \<lparr> u_firstName := Anna_TAB_Maria \<rparr>) \<and>
   Anna_TAB_Maria ! 4 = 9 \<and>
   name_invariant Anna_TAB_Maria = False \<and>
   user_invariant ((john 1000) \<lparr> u_firstName := Anna_TAB_Maria \<rparr>) = False"
  by (simp add: User_fromPersistence_def User_create_def validUserData_def user_eval
      anna_accepted anna_violates user_invariant_def)
    (simp add: Anna_TAB_Maria_def js_def)

section \<open>The timestamps of the User updates\<close>

lemma User_updateProfile_bumps:
  assumes "User_updateProfile clock this updates = Inr u" and "u_updatedAt this \<le> clock"
  shows "u_updatedAt this < u_updatedAt u \<and> u_id u = u_id this \<and>
         u_createdAt u = u_createdAt this"
proof -
  from assms(1) have "u = (merge_updates this updates)
     \<lparr> u_updatedAt := (if clock = u_updatedAt this then clock + 1 else clock) \<rparr>"
    by (simp add: User_updateProfile_Inr_new User_new_Inr_eq)
  with assms(2) show ?thesis
    by (simp add: merge_updates_def)
qed

lemma User_changeEmail_timestamp:
  "User_changeEmail clock this newEmail = Inr u \<Longrightarrow>
   u_updatedAt u = clock \<and> u_id u = u_id this \<and> u_createdAt u = u_createdAt this"
  by (auto simp: User_changeEmail_def split: option.splits if_splits dest!: User_new_Inr_eq)

lemma User_activate_timestamp:
  "User_activate clock this = Inr u \<Longrightarrow>
   u_updatedAt u = clock \<and> u_id u = u_id this \<and> u_createdAt u = u_createdAt this"
  by (auto simp: User_activate_def split: if_splits dest!: User_new_Inr_eq)

lemma User_deactivate_timestamp:
  "User_deactivate clock this = Inr u \<Longrightarrow>
   u_updatedAt u = clock \<and> u_id u = u_id this \<and> u_createdAt u = u_createdAt this"
  by (auto simp: User_deactivate_def split: if_splits dest!: User_new_Inr_eq)

lemma User_updateLastLogin_timestamp:
  "User_updateLastLogin clock1 clock2 this = Inr u \<Longrightarrow>
   u_updatedAt u = clock2 \<and> u_id u = u_id this \<and> u_createdAt u = u_createdAt this"
  by (auto simp: User_updateLastLogin_def dest!: User_new_Inr_eq)

lemma User_addRole_timestamp:
  "User_addRole clock this role = Inr u \<Longrightarrow>
   u_updatedAt u = clock \<and> u_id u = u_id this \<and> u_createdAt u = u_createdAt this"
  by (auto simp: User_addRole_def split: if_splits dest!: User_new_Inr_eq)

lemma User_removeRole_timestamp:
  "User_removeRole clock this role = Inr u \<Longrightarrow>
   u_updatedAt u = clock \<and> u_id u = u_id this \<and> u_createdAt u = u_createdAt this"
  by (auto simp: User_removeRole_def split: if_splits dest!: User_new_Inr_eq)

text \<open>
  Claim C4 asks that every update returns a User whose \<^verbatim>\<open>updatedAt\<close> is strictly
  later than before, with id and \<^verbatim>\<open>createdAt\<close> unchanged. The identity fields are kept
  (the lemmas above). \<^verbatim>\<open>updateProfile\<close> moves a clock reading equal to the old
  \<^verbatim>\<open>updatedAt\<close> forward by a millisecond; the other update methods take the reading as
  it is. So \<^verbatim>\<open>changeEmail\<close> in the millisecond of the last update returns a User with
  the same \<^verbatim>\<open>updatedAt\<close>, where \<^verbatim>\<open>updateProfile\<close> with the same clock and the same
  new email returns one that is a millisecond later.
\<close>

theorem changeEmail_in_the_same_millisecond:
  "User_changeEmail 1000 (john 1000) (js ''newemail@example.com'') =
     Inr ((john 1000) \<lparr> u_email := js ''newemail@example.com'', u_updatedAt := 1000 \<rparr>) \<and>
   u_updatedAt ((john 1000) \<lparr> u_email := js ''newemail@example.com'', u_updatedAt := 1000 \<rparr>) =
     u_updatedAt (john 1000) \<and>
   User_updateProfile 1000 (john 1000)
       \<lparr> up_firstName = None, up_lastName = None,
         up_email = Some (js ''newemail@example.com''), up_avatar = None \<rparr> =
     Inr ((john 1000) \<lparr> u_email := js ''newemail@example.com'', u_updatedAt := 1001 \<rparr>)"
  by (simp add: User_changeEmail_def User_updateProfile_def merge_updates_def user_eval)


section \<open>Properties of the Product entity\<close>

lemma Product_new_Inr_iff:
  "Product_new p = Inr q \<longleftrightarrow>
     q = p \<and> Product_validateName (p_name p) = None \<and>
     Product_validateDescription (p_description p) = None \<and>
     Product_validatePrice (p_price p) = None \<and> Product_validateStock (p_inStock p) = None"
  by (auto simp: Product_new_def split: option.splits)

lemma Product_validatePrice_None_iff:
  "Product_validatePrice x = None \<longleftrightarrow> x = NaN \<or> price_in_range x"
  by (cases x) (auto simp: Product_validatePrice_def price_in_range_def js_gt_def)

lemma Product_validateStock_None_iff: "Product_validateStock x = None \<longleftrightarrow> stock_valid x"
  by (cases x) (auto simp: Product_validateStock_def stock_valid_def)

lemma Product_validateName_None:
  "Product_validateName n = None \<Longrightarrow> 2 \<le> length n \<and> length n \<le> 100"
  by (auto simp: Product_validateName_def split: if_splits)

lemma Product_validateDescription_None:
  "Product_validateDescription d = None \<Longrightarrow> 10 \<le> length d \<and> length d \<le> 1000"
  by (auto simp: Product_validateDescription_def split: if_splits)

text \<open>
  The constructor establishes the invariant of the specification for every price but
  \<^verbatim>\<open>NaN\<close>, which passes both comparisons of \<^verbatim>\<open>validatePrice\<close>.
\<close>

lemma Product_new_invariant:
  "Product_new p = Inr q \<Longrightarrow> p_price q \<noteq> NaN \<Longrightarrow> product_invariant q"
  by (auto simp: Product_new_Inr_iff product_invariant_def Product_validatePrice_None_iff
      Product_validateStock_None_iff
      dest: Product_validateName_None Product_validateDescription_None)

lemma Product_new_stock: "Product_new p = Inr q \<Longrightarrow> stock_valid (p_inStock q)"
  by (simp add: Product_new_Inr_iff Product_validateStock_None_iff)

text \<open>
  Every operation that returns a Product ends in the constructor, so what it returns
  satisfies the invariant unless its price is \<^verbatim>\<open>NaN\<close>.
\<close>

lemma Product_operations_end_in_constructor:
  "(Product_create now uuid cprops = Inr q \<longrightarrow> (\<exists>p. Product_new p = Inr q)) \<and>
   (Product_fromPersistence props = Inr q \<longrightarrow> (\<exists>p. Product_new p = Inr q)) \<and>
   (Product_updateBasicInfo clock this updates = Inr q \<longrightarrow> (\<exists>p. Product_new p = Inr q)) \<and>
   (Product_updateStock clock this n = Inr q \<longrightarrow> (\<exists>p. Product_new p = Inr q)) \<and>
   (Product_reduceStock clock this n = Inr q \<longrightarrow> (\<exists>p. Product_new p = Inr q)) \<and>
   (Product_addStock clock this n = Inr q \<longrightarrow> (\<exists>p. Product_new p = Inr q)) \<and>
   (Product_addImage clock this s = Inr q \<longrightarrow> (\<exists>p. Product_new p = Inr q)) \<and>
   (Product_removeImage clock this s = Inr q \<longrightarrow> (\<exists>p. Product_new p = Inr q)) \<and>
   (Product_addTag lc clock this s = Inr q \<longrightarrow> (\<exists>p. Product_new p = Inr q)) \<and>
   (Product_removeTag lc clock this s = Inr q \<longrightarrow> (\<exists>p. Product_new p = Inr q)) \<and>
   (Product_activate clock this = Inr q \<longrightarrow> (\<exists>p. Product_new p = Inr q)) \<and>
   (Product_deactivate clock this = Inr q \<longrightarrow> (\<exists>p. Product_new p = Inr q))"
proof (intro conjI impI)
  show "Product_create now uuid cprops = Inr q \<Longrightarrow> \<exists>p. Product_new p = Inr q"
    unfolding Product_create_def by blast
  show "Product_fromPersistence props = Inr q \<Longrightarrow> \<exists>p. Product_new p = Inr q"
    unfolding Product_fromPersistence_def by blast
  show "Product_updateBasicInfo clock this updates = Inr q \<Longrightarrow> \<exists>p. Product_new p = Inr q"
    unfolding Product_updateBasicInfo_def by (auto split: option.splits)
  show "Product_updateStock clock this n = Inr q \<Longrightarrow> \<exists>p. Product_new p = Inr q"
    unfolding Product_updateStock_def by (auto split: option.splits)
  show "Product_reduceStock clock this n = Inr q \<Longrightarrow> \<exists>p. Product_new p = Inr q"
    unfolding Product_reduceStock_def by (auto split: if_splits)
  show "Product_addStock clock this n = Inr q \<Longrightarrow> \<exists>p. Product_new p = Inr q"
    unfolding Product_addStock_def by (auto split: if_splits)
  show "Product_addImage clock this s = Inr q \<Longrightarrow> \<exists>p. Product_new p = Inr q"
    unfolding Product_addImage_def by (auto split: if_splits)
  show "Product_removeImage clock this s = Inr q \<Longrightarrow> \<exists>p. Product_new p = Inr q"
    unfolding Product_removeImage_def by (auto split: if_splits)
  show "Product_addTag lc clock this s = Inr q \<Longrightarrow> \<exists>p. Product_new p = Inr q"
    unfolding Product_addTag_def Let_def by (auto split: if_splits)
  show "Product_removeTag lc clock this s = Inr q \<Longrightarrow> \<exists>p. Product_new p = Inr q"
    unfolding Product_removeTag_def by (auto split: option.splits)
  show "Product_activate clock this = Inr q \<Longrightarrow> \<exists>p. Product_new p = Inr q"
    unfolding Product_activate_def by (auto split: if_splits)
  show "Product_deactivate clock this = Inr q \<Longrightarrow> \<exists>p. Product_new p = Inr q"
    unfolding Product_deactivate_def by (auto split: if_splits)
qed

text \<open>
  Claim C9 asks that every Product has a price in [0, 999999.99]. \<^verbatim>\<open>Product.create\<close>
  with the price \<^verbatim>\<open>NaN\<close> returns a Product: both comparisons of
  \<^verbatim>\<open>validatePrice\<close> are false for \<^verbatim>\<open>NaN\<close>, while \<^verbatim>\<open>validateStock\<close> rejects it with
  \<^verbatim>\<open>Number.isInteger\<close>.
\<close>

theorem Product_create_accepts_NaN_price:
  "Product_create 1000 (js ''p-1'') nan_widget =
     Inr \<lparr> p_id = js ''p-1'', p_name = js ''Widget'', p_description = js ''A useful widget'',
           p_price = NaN, p_currency = js ''EUR'', p_categoryId = js ''cat-1'', p_images = [],
           p_inStock = Finite 5, p_isActive = True, p_tags = [],
           p_createdAt = 1000, p_updatedAt = 1000 \<rparr> \<and>
   price_in_range NaN = False \<and>
   product_invariant
     \<lparr> p_id = js ''p-1'', p_name = js ''Widget'', p_description = js ''A useful widget'',
       p_price = NaN, p_currency = js ''EUR'', p_categoryId = js ''cat-1'', p_images = [],
       p_inStock = Finite 5, p_isActive = True, p_tags = [],
       p_createdAt = 1000, p_updatedAt = 1000 \<rparr> = False"
  by (simp add: Product_create_def nan_widget_def Product_new_def Product_validateName_def
      Product_validateDescription_def Product_validatePrice_def Product_validateStock_def
      js_gt_def product_invariant_def price_in_range_def js_def trim_def isWhiteSpace_def falsy_def)


section \<open>Properties of the use cases\<close>

lemma try_catch_resolves: "\<exists>r. fst (try_catch fallback body) = Resolved r"
  by (cases body) (auto simp: try_catch_def split: sum.splits)

lemma try_catch_Inr: "try_catch fallback (Inr r, effs) = (Resolved r, effs)"
  by (simp add: try_catch_def)

text \<open>
  Claim C5. Whatever the input and whatever the dependencies do (a repository, password
  hasher, email service or audit logger may throw or return a promise that rejects), the
  promise that \<^verbatim>\<open>execute\<close> of CreateUser, GetUser, ListUsers and UpdateUser returns
  resolves to a Result, \<^verbatim>\<open>{success: true, data}\<close> or \<^verbatim>\<open>{success: false, error}\<close>; it
  never rejects.
\<close>

theorem execute_never_rejects:
  "(\<exists>r. fst (CreateUser_execute deps now uuid input) = Resolved r) \<and>
   (\<exists>r. fst (GetUser_execute deps input_id) = Resolved r) \<and>
   (\<exists>r. fst (ListUsers_execute deps list_input) = Resolved r) \<and>
   (\<exists>r. fst (UpdateUser_execute deps valid_url clock update_input) = Resolved r)"
  unfolding CreateUser_execute_def GetUser_execute_def ListUsers_execute_def
    UpdateUser_execute_def
  by (intro conjI try_catch_resolves)

text \<open>
  Claim C6. When the input fails the validation of a use case (\<^verbatim>\<open>validateInput\<close> of
  CreateUser and UpdateUser, the check of the id in GetUser, \<^verbatim>\<open>validateFilters\<close> in
  ListUsers), \<^verbatim>\<open>execute\<close> resolves to that failure and has no effect: no method of a
  repository, password hasher, email service or audit logger is invoked.
\<close>

theorem validation_failure_short_circuits:
  "(\<forall>deps now uuid input e.
      CreateUser_validateInput input = Failure e \<longrightarrow>
      CreateUser_execute deps now uuid input = (Resolved (Failure e), [])) \<and>
   (\<forall>deps input_id.
      falsy input_id \<or> length (trim input_id) = 0 \<longrightarrow>
      GetUser_execute deps input_id =
        (Resolved (Failure (DomainError (js ''Benutzer-ID ist erforderlich'') ''INVALID_INPUT'')),
         [])) \<and>
   (\<forall>deps valid_url clock input e.
      UpdateUser_validateInput valid_url input = Failure e \<longrightarrow>
      UpdateUser_execute deps valid_url clock input = (Resolved (Failure e), [])) \<and>
   (\<forall>deps input e.
      validateFilters (li_filters input) = Failure e \<longrightarrow>
      ListUsers_execute deps input = (Resolved (Failure e), []))"
  by (simp add: CreateUser_execute_def CreateUser_body_def GetUser_execute_def GetUser_body_def
      UpdateUser_execute_def UpdateUser_body_def ListUsers_execute_def ListUsers_body_def
      try_catch_Inr Let_def)

lemma sendWelcomeEmailAsync_calls:
  "filter is_call (sendWelcomeEmailAsync deps email firstName) =
     [Call_sendWelcomeEmail email firstName]"
  by (simp add: sendWelcomeEmailAsync_def split: sum.splits)

lemma CreateUser_body_email:
  "fst (CreateUser_body (deps \<lparr> sendWelcomeEmail := mail \<rparr>) now uuid input) =
     fst (CreateUser_body deps now uuid input) \<and>
   filter is_call (snd (CreateUser_body (deps \<lparr> sendWelcomeEmail := mail \<rparr>) now uuid input)) =
     filter is_call (snd (CreateUser_body deps now uuid input))"
  by (simp add: CreateUser_body_def Let_def sendWelcomeEmailAsync_calls
      split: result.splits sum.splits)

lemma try_catch_fst: "fst (try_catch fb body) = fst (try_catch fb (fst body, effs))"
  by (cases body) (simp add: try_catch_def split: sum.splits)

lemma try_catch_snd: "snd (try_catch fb body) = snd body"
  by (cases body) (simp add: try_catch_def split: sum.splits)

text \<open>
  Claim C7. The Result of \<^verbatim>\<open>CreateUserUseCase.execute\<close> does not depend on the welcome
  email: two executions that differ only in what \<^verbatim>\<open>emailService.sendWelcomeEmail\<close> does
  (resolve, reject or throw) settle in the same way and invoke the same methods with the
  same arguments; they can differ only in what is written to the console.
\<close>

theorem CreateUser_result_independent_of_email:
  "fst (CreateUser_execute (deps \<lparr> sendWelcomeEmail := mail1 \<rparr>) now uuid input) =
     fst (CreateUser_execute (deps \<lparr> sendWelcomeEmail := mail2 \<rparr>) now uuid input) \<and>
   filter is_call (snd (CreateUser_execute (deps \<lparr> sendWelcomeEmail := mail1 \<rparr>) now uuid input)) =
     filter is_call (snd (CreateUser_execute (deps \<lparr> sendWelcomeEmail := mail2 \<rparr>) now uuid input))"
proof -
  have a: "fst (CreateUser_body (deps \<lparr> sendWelcomeEmail := mail1 \<rparr>) now uuid input) =
           fst (CreateUser_body (deps \<lparr> sendWelcomeEmail := mail2 \<rparr>) now uuid input)"
    using CreateUser_body_email[where deps=deps and mail=mail1] CreateUser_body_email[where deps=deps and mail=mail2] by simp
  have b: "filter is_call (snd (CreateUser_body (deps \<lparr> sendWelcomeEmail := mail1 \<rparr>) now uuid input)) =
           filter is_call (snd (CreateUser_body (deps \<lparr> sendWelcomeEmail := mail2 \<rparr>) now uuid input))"
    using CreateUser_body_email[where deps=deps and mail=mail1] CreateUser_body_email[where deps=deps and mail=mail2] by simp
  have "fst (CreateUser_execute (deps \<lparr> sendWelcomeEmail := mail1 \<rparr>) now uuid input) =
        fst (CreateUser_execute (deps \<lparr> sendWelcomeEmail := mail2 \<rparr>) now uuid input)"
    unfolding CreateUser_execute_def
    using a try_catch_fst by metis
  then show ?thesis
    by (simp add: CreateUser_execute_def try_catch_snd b)
qed


section \<open>What ListUsers passes to the repository\<close>

lemma ListUsers_effects:
  "snd (ListUsers_execute deps input) =
     (case validateFilters (li_filters input) of
        Failure e \<Rightarrow> []
      | Success u \<Rightarrow>
          [Call_findAll (normalizePagination (li_pagination input))
             (buildFilters (li_filters input) (li_includeInactive input))])"
  by (simp add: ListUsers_execute_def try_catch_snd ListUsers_body_def Let_def
      split: result.splits sum.splits)

lemma ListUsers_findAll_args:
  assumes "Call_findAll p f \<in> set (snd (ListUsers_execute deps input))"
  shows "p = normalizePagination (li_pagination input) \<and>
         f = buildFilters (li_filters input) (li_includeInactive input)"
  using assms by (simp add: ListUsers_effects split: result.splits)

lemma page_clamped:
  "Math_max (Finite 1) (num_or x (Finite 1)) = clamped_page x"
proof (cases x)
  case None
  then show ?thesis by (simp add: Math_max_def num_or_def clamped_page_def)
next
  case (Some n)
  then show ?thesis
    by (cases n) (auto simp: Math_max_def num_or_def clamped_page_def max_def)
qed

lemma pageSize_clamped:
  "Math_min (Finite 100) (Math_max (Finite 5) (num_or x (Finite 10))) = clamped_pageSize x"
proof (cases x)
  case None
  then show ?thesis by (simp add: Math_min_def Math_max_def num_or_def clamped_pageSize_def)
next
  case (Some n)
  then show ?thesis
    by (cases n)
      (auto simp: Math_min_def Math_max_def num_or_def clamped_pageSize_def max_def min_def)
qed

lemma clamped_page_ge: "js_le (Finite 1) (clamped_page x)"
  by (auto simp: clamped_page_def js_le_def split: option.splits jsnum.splits)

lemma clamped_pageSize_bounds:
  "js_le (Finite 5) (clamped_pageSize x) \<and> js_le (clamped_pageSize x) (Finite 100)"
  by (auto simp: clamped_pageSize_def js_le_def split: option.splits jsnum.splits)

text \<open>
  Claim C8. The pagination that ListUsers passes to \<^verbatim>\<open>userRepository.findAll\<close> is
  clamped: the page is \<^verbatim>\<open>max(1, page or 1)\<close>, the page size
  \<^verbatim>\<open>min(100, max(5, pageSize or 10))\<close>, \<^verbatim>\<open>sortBy\<close> defaults to \<^verbatim>\<open>'createdAt'\<close> and
  \<^verbatim>\<open>sortOrder\<close> to \<^verbatim>\<open>'desc'\<close>; so the repository sees a page of at least 1 and a page
  size between 5 and 100.
\<close>

theorem ListUsers_clamps_pagination:
  assumes "Call_findAll p f \<in> set (snd (ListUsers_execute deps input))"
  shows "pg_page p = Some (clamped_page (pg_page (li_pagination input))) \<and>
         pg_pageSize p = Some (clamped_pageSize (pg_pageSize (li_pagination input))) \<and>
         pg_sortBy p =
           Some (case pg_sortBy (li_pagination input) of
                   None \<Rightarrow> js ''createdAt''
                 | Some s \<Rightarrow> if s = [] then js ''createdAt'' else s) \<and>
         pg_sortOrder p =
           Some (case pg_sortOrder (li_pagination input) of None \<Rightarrow> desc | Some d \<Rightarrow> d) \<and>
         js_le (Finite 1) (clamped_page (pg_page (li_pagination input))) \<and>
         js_le (Finite 5) (clamped_pageSize (pg_pageSize (li_pagination input))) \<and>
         js_le (clamped_pageSize (pg_pageSize (li_pagination input))) (Finite 100)"
proof -
  from assms have p: "p = normalizePagination (li_pagination input)"
    by (simp add: ListUsers_findAll_args)
  show ?thesis
    unfolding p
    by (simp add: normalizePagination_def page_clamped pageSize_clamped clamped_page_ge
        clamped_pageSize_bounds truthy_opt_def falsy_def split: option.splits)
qed

lemma buildFilters_cases:
  "buildFilters (li_filters input) (li_includeInactive input) =
     (if li_includeInactive input \<noteq> Some True \<and> \<not> status_supplied (input_filters input)
      then (input_filters input) \<lparr> f_status := Some (js ''active'') \<rparr>
      else input_filters input)"
  by (simp add: buildFilters_def input_filters_def status_supplied_def truthy_opt_def falsy_def
      Let_def split: option.splits)

text \<open>
  Claim C10. When \<^verbatim>\<open>includeInactive\<close> is not true and no status filter is supplied, the
  filters that ListUsers passes to \<^verbatim>\<open>userRepository.findAll\<close> are those of the input
  with the status \<^verbatim>\<open>'active'\<close>; when \<^verbatim>\<open>includeInactive\<close> is true or a status filter
  is supplied, they are those of the input, unchanged.
\<close>

theorem ListUsers_default_status_filter:
  assumes "Call_findAll p f \<in> set (snd (ListUsers_execute deps input))"
  shows "(li_includeInactive input \<noteq> Some True \<and> \<not> status_supplied (input_filters input) \<longrightarrow>
            f = (input_filters input) \<lparr> f_status := Some (js ''active'') \<rparr>) \<and>
         (li_includeInactive input = Some True \<or> status_supplied (input_filters input) \<longrightarrow>
            f = input_filters input)"
proof -
  from assms have "f = buildFilters (li_filters input) (li_includeInactive input)"
    by (simp add: ListUsers_findAll_args)
  then show ?thesis
    by (auto simp: buildFilters_cases)
qed


section \<open>The use cases at concrete inputs\<close>

text \<open>
  The claim at inputs that fail the validations, with dependencies that would fail if they
  were called: an empty email, an empty id, an update without id and without changes, and
  the status filter \<^verbatim>\<open>'bogus'\<close>.
\<close>

theorem validation_failure_short_circuits_witness:
  "CreateUser_validateInput (validInput \<lparr> cu_email := [] \<rparr>) =
     Failure (ValidationError (js ''E-Mail ist erforderlich'') ''email'') \<and>
   CreateUser_execute failing_dependencies 1000 (js ''id-1'') (validInput \<lparr> cu_email := [] \<rparr>) =
     (Resolved (Failure (ValidationError (js ''E-Mail ist erforderlich'') ''email'')), []) \<and>
   falsy [] \<and>
   GetUser_execute failing_dependencies [] =
     (Resolved (Failure (DomainError (js ''Benutzer-ID ist erforderlich'') ''INVALID_INPUT'')), []) \<and>
   UpdateUser_validateInput (\<lambda>s. True)
       \<lparr> ui_id = [], ui_updates = \<lparr> uu_firstName = None, uu_lastName = None, uu_avatar = None \<rparr> \<rparr> =
     Failure (DomainError
       (join [js ''Benutzer-ID ist erforderlich'',
              js (''Mindestens eine '' @ [CHR 0xC4] @ ''nderung ist erforderlich'')])
       ''VALIDATION_ERROR'') \<and>
   UpdateUser_execute failing_dependencies (\<lambda>s. True) 2000
       \<lparr> ui_id = [], ui_updates = \<lparr> uu_firstName = None, uu_lastName = None, uu_avatar = None \<rparr> \<rparr> =
     (Resolved (Failure (DomainError
        (join [js ''Benutzer-ID ist erforderlich'',
               js (''Mindestens eine '' @ [CHR 0xC4] @ ''nderung ist erforderlich'')])
        ''VALIDATION_ERROR'')), []) \<and>
   validateFilters
       (Some \<lparr> f_search = None, f_status = Some (js ''bogus''), f_dateFrom = None, f_dateTo = None \<rparr>) =
     Failure (DomainError (join [js (''Ung'' @ [CHR 0xFC] @ ''ltiger Status-Filter'')])
       ''VALIDATION_ERROR'') \<and>
   ListUsers_execute failing_dependencies
       \<lparr> li_pagination = \<lparr> pg_page = None, pg_pageSize = None, pg_sortBy = None,
                           pg_sortOrder = None \<rparr>,
         li_filters = Some \<lparr> f_search = None, f_status = Some (js ''bogus''), f_dateFrom = None,
                             f_dateTo = None \<rparr>,
         li_includeInactive = None \<rparr> =
     (Resolved (Failure (DomainError (join [js (''Ung'' @ [CHR 0xFC] @ ''ltiger Status-Filter'')])
        ''VALIDATION_ERROR'')), [])"
proof -
  note sc = validation_failure_short_circuits
  have v1: "CreateUser_validateInput (validInput \<lparr> cu_email := [] \<rparr>) =
     Failure (ValidationError (js ''E-Mail ist erforderlich'') ''email'')"
    by (simp add: CreateUser_validateInput_def validInput_def falsy_def)
  have v2: "falsy [] \<or> length (trim []) = 0"
    by (simp add: falsy_def)
  have v3: "UpdateUser_validateInput (\<lambda>s. True)
       \<lparr> ui_id = [], ui_updates = \<lparr> uu_firstName = None, uu_lastName = None, uu_avatar = None \<rparr> \<rparr> =
     Failure (DomainError
       (join [js ''Benutzer-ID ist erforderlich'',
              js (''Mindestens eine '' @ [CHR 0xC4] @ ''nderung ist erforderlich'')])
       ''VALIDATION_ERROR'')"
    by (simp add: UpdateUser_validateInput_def updates_keys_def falsy_def Let_def)
  have v4: "validateFilters (li_filters
       \<lparr> li_pagination = \<lparr> pg_page = None, pg_pageSize = None, pg_sortBy = None,
                           pg_sortOrder = None \<rparr>,
         li_filters = Some \<lparr> f_search = None, f_status = Some (js ''bogus''), f_dateFrom = None,
                             f_dateTo = None \<rparr>,
         li_includeInactive = None \<rparr>) =
     Failure (DomainError (join [js (''Ung'' @ [CHR 0xFC] @ ''ltiger Status-Filter'')])
       ''VALIDATION_ERROR'')"
    by (simp add: validateFilters_def truthy_opt_def falsy_def Let_def js_def)
  have v4': "validateFilters
       (Some \<lparr> f_search = None, f_status = Some (js ''bogus''), f_dateFrom = None, f_dateTo = None \<rparr>) =
     Failure (DomainError (join [js (''Ung'' @ [CHR 0xFC] @ ''ltiger Status-Filter'')])
       ''VALIDATION_ERROR'')"
    using v4 by simp
  show ?thesis
    by (intro conjI v1 v3 v4'
        sc[THEN conjunct1, rule_format, OF v1]
        sc[THEN conjunct2, THEN conjunct1, rule_format, OF v2]
        sc[THEN conjunct2, THEN conjunct2, THEN conjunct1, rule_format, OF v3]
        sc[THEN conjunct2, THEN conjunct2, THEN conjunct2, rule_format, OF v4])
      (simp add: falsy_def)
qed

text \<open>
  The claim at a page 0 and a page size 1000 without sort fields, with the mocked
  repository: \<^verbatim>\<open>findAll\<close> is called with page 1, page size 100, \<^verbatim>\<open>'createdAt'\<close> and
  \<^verbatim>\<open>'desc'\<close>.
\<close>

theorem ListUsers_clamps_pagination_witness:
  "Call_findAll
       \<lparr> pg_page = Some (Finite 1), pg_pageSize = Some (Finite 100),
         pg_sortBy = Some (js ''createdAt''), pg_sortOrder = Some desc \<rparr>
       \<lparr> f_search = None, f_status = Some (js ''active''), f_dateFrom = None, f_dateTo = None \<rparr>
     \<in> set (snd (ListUsers_execute mock_dependencies
           \<lparr> li_pagination = \<lparr> pg_page = Some (Finite 0), pg_pageSize = Some (Finite 1000),
                               pg_sortBy = None, pg_sortOrder = None \<rparr>,
             li_filters = None, li_includeInactive = None \<rparr>)) \<and>
   clamped_page (Some (Finite 0)) = Finite 1 \<and>
   clamped_pageSize (Some (Finite 1000)) = Finite 100 \<and>
   js_le (Finite 1) (clamped_page (Some (Finite 0))) \<and>
   js_le (Finite 5) (clamped_pageSize (Some (Finite 1000))) \<and>
   js_le (clamped_pageSize (Some (Finite 1000))) (Finite 100)"
proof -
  have mem: "Call_findAll
       \<lparr> pg_page = Some (Finite 1), pg_pageSize = Some (Finite 100),
         pg_sortBy = Some (js ''createdAt''), pg_sortOrder = Some desc \<rparr>
       \<lparr> f_search = None, f_status = Some (js ''active''), f_dateFrom = None, f_dateTo = None \<rparr>
     \<in> set (snd (ListUsers_execute mock_dependencies
           \<lparr> li_pagination = \<lparr> pg_page = Some (Finite 0), pg_pageSize = Some (Finite 1000),
                               pg_sortBy = None, pg_sortOrder = None \<rparr>,
             li_filters = None, li_includeInactive = None \<rparr>))"
    by (simp add: ListUsers_effects validateFilters_def normalizePagination_def buildFilters_def
        num_or_def Math_max_def Math_min_def truthy_opt_def)
  note t = ListUsers_clamps_pagination[OF mem]
  have a: "clamped_page (Some (Finite 0)) = Finite 1"
    using t[THEN conjunct1] by simp
  have b: "clamped_pageSize (Some (Finite 1000)) = Finite 100"
    using t[THEN conjunct2, THEN conjunct1] by simp
  have c: "js_le (Finite 1) (clamped_page (Some (Finite 0)))"
    using t[THEN conjunct2, THEN conjunct2, THEN conjunct2, THEN conjunct2, THEN conjunct1] by simp
  have d: "js_le (Finite 5) (clamped_pageSize (Some (Finite 1000)))"
    using t[THEN conjunct2, THEN conjunct2, THEN conjunct2, THEN conjunct2, THEN conjunct2, THEN conjunct1] by simp
  have e: "js_le (clamped_pageSize (Some (Finite 1000))) (Finite 100)"
    using t[THEN conjunct2, THEN conjunct2, THEN conjunct2, THEN conjunct2, THEN conjunct2, THEN conjunct2] by simp
  show ?thesis
    by (intro conjI mem a b c d e)
qed

text \<open>
  The claim at three inputs, with the mocked repository: no filters and no
  \<^verbatim>\<open>includeInactive\<close> (the status \<^verbatim>\<open>'active'\<close> is added), the status filter
  \<^verbatim>\<open>'inactive'\<close>, and \<^verbatim>\<open>includeInactive: true\<close> (both passed as they are).
\<close>

theorem ListUsers_default_status_filter_witness:
  "Call_findAll
       \<lparr> pg_page = Some (Finite 1), pg_pageSize = Some (Finite 10),
         pg_sortBy = Some (js ''createdAt''), pg_sortOrder = Some desc \<rparr>
       \<lparr> f_search = None, f_status = Some (js ''active''), f_dateFrom = None, f_dateTo = None \<rparr>
     \<in> set (snd (ListUsers_execute mock_dependencies
           \<lparr> li_pagination = \<lparr> pg_page = None, pg_pageSize = None, pg_sortBy = None,
                               pg_sortOrder = None \<rparr>,
             li_filters = None, li_includeInactive = None \<rparr>)) \<and>
   Call_findAll
       \<lparr> pg_page = Some (Finite 1), pg_pageSize = Some (Finite 10),
         pg_sortBy = Some (js ''createdAt''), pg_sortOrder = Some desc \<rparr>
       \<lparr> f_search = None, f_status = Some (js ''inactive''), f_dateFrom = None, f_dateTo = None \<rparr>
     \<in> set (snd (ListUsers_execute mock_dependencies
           \<lparr> li_pagination = \<lparr> pg_page = None, pg_pageSize = None, pg_sortBy = None,
                               pg_sortOrder = None \<rparr>,
             li_filters = Some \<lparr> f_search = None, f_status = Some (js ''inactive''),
                                 f_dateFrom = None, f_dateTo = None \<rparr>,
             li_includeInactive = Some False \<rparr>)) \<and>
   Call_findAll
       \<lparr> pg_page = Some (Finite 1), pg_pageSize = Some (Finite 10),
         pg_sortBy = Some (js ''createdAt''), pg_sortOrder = Some desc \<rparr>
       \<lparr> f_search = None, f_status = None, f_dateFrom = None, f_dateTo = None \<rparr>
     \<in> set (snd (ListUsers_execute mock_dependencies
           \<lparr> li_pagination = \<lparr> pg_page = None, pg_pageSize = None, pg_sortBy = None,
                               pg_sortOrder = None \<rparr>,
             li_filters = None, li_includeInactive = Some True \<rparr>))"
proof -
  let ?pg = "\<lparr> pg_page = None, pg_pageSize = None, pg_sortBy = None, pg_sortOrder = None \<rparr>"
  let ?in1 = "\<lparr> li_pagination = ?pg, li_filters = None, li_includeInactive = None \<rparr>"
  let ?in2 = "\<lparr> li_pagination = ?pg,
                 li_filters = Some \<lparr> f_search = None, f_status = Some (js ''inactive''),
                                     f_dateFrom = None, f_dateTo = None \<rparr>,
                 li_includeInactive = Some False \<rparr>"
  let ?in3 = "\<lparr> li_pagination = ?pg, li_filters = None, li_includeInactive = Some True \<rparr>"
  have ok2: "validateFilters (li_filters ?in2) = Success ()"
    by (simp add: validateFilters_def truthy_opt_def falsy_def Let_def)
  have m1: "Call_findAll (normalizePagination ?pg)
              (buildFilters (li_filters ?in1) (li_includeInactive ?in1))
            \<in> set (snd (ListUsers_execute mock_dependencies ?in1))"
    by (simp add: ListUsers_effects validateFilters_def)
  have m2: "Call_findAll (normalizePagination ?pg)
              (buildFilters (li_filters ?in2) (li_includeInactive ?in2))
            \<in> set (snd (ListUsers_execute mock_dependencies ?in2))"
    using ok2 by (simp add: ListUsers_effects)
  have m3: "Call_findAll (normalizePagination ?pg)
              (buildFilters (li_filters ?in3) (li_includeInactive ?in3))
            \<in> set (snd (ListUsers_execute mock_dependencies ?in3))"
    by (simp add: ListUsers_effects validateFilters_def)
  have s1: "li_includeInactive ?in1 \<noteq> Some True \<and> \<not> status_supplied (input_filters ?in1)"
    by (simp add: status_supplied_def input_filters_def)
  have s2: "li_includeInactive ?in2 = Some True \<or> status_supplied (input_filters ?in2)"
    by (simp add: status_supplied_def input_filters_def js_def)
  have s3: "li_includeInactive ?in3 = Some True \<or> status_supplied (input_filters ?in3)"
    by simp
  have pg: "normalizePagination ?pg =
      \<lparr> pg_page = Some (Finite 1), pg_pageSize = Some (Finite 10),
        pg_sortBy = Some (js ''createdAt''), pg_sortOrder = Some desc \<rparr>"
    by (simp add: normalizePagination_def num_or_def Math_max_def Math_min_def truthy_opt_def)
  have f1: "buildFilters (li_filters ?in1) (li_includeInactive ?in1) =
      \<lparr> f_search = None, f_status = Some (js ''active''), f_dateFrom = None, f_dateTo = None \<rparr>"
    using ListUsers_default_status_filter[OF m1, THEN conjunct1, rule_format, OF s1]
    by (simp add: input_filters_def)
  have f2: "buildFilters (li_filters ?in2) (li_includeInactive ?in2) =
      \<lparr> f_search = None, f_status = Some (js ''inactive''), f_dateFrom = None, f_dateTo = None \<rparr>"
    using ListUsers_default_status_filter[OF m2, THEN conjunct2, rule_format, OF s2]
    by (simp add: input_filters_def)
  have f3: "buildFilters (li_filters ?in3) (li_includeInactive ?in3) =
      \<lparr> f_search = None, f_status = None, f_dateFrom = None, f_dateTo = None \<rparr>"
    using ListUsers_default_status_filter[OF m3, THEN conjunct2, rule_format, OF s3]
    by (simp add: input_filters_def)
  from m1 m2 m3 show ?thesis
    unfolding pg f1 f2 f3 by simp
qed

text \<open>
  The use cases on the fixtures: with the mocked dependencies the user is created although
  the email service rejects, and the rejection goes to the console; with dependencies that
  fail, the value that \<^verbatim>\<open>emailExists\<close> rejects with is no \<^verbatim>\<open>Error\<close> and the Result
  carries the fallback error.
\<close>

lemma validInput_fields:
  "cu_email validInput = js ''john.doe@example.com''" "cu_firstName validInput = js ''John''"
  "cu_lastName validInput = js ''Doe''" "cu_password validInput = js ''securePassword123''"
  by (simp_all add: validInput_def)

lemma validInput_valid: "CreateUser_validateInput validInput = Success ()"
  using email_john
  by (simp add: CreateUser_validateInput_def validInput_def User_validateEmail_def falsy_def
      js_Nil_iff trim_def js_def isWhiteSpace_def split: if_splits)

lemma CreateUser_execute_mocked:
  "CreateUser_execute mock_dependencies 1000 (js ''id-1'') validInput =
     (Resolved (Success (john 1000)),
      [Call_emailExists (js ''john.doe@example.com''),
       Call_hash (js ''securePassword123''),
       Call_save (john 1000),
       Call_sendWelcomeEmail (js ''john.doe@example.com'') (js ''John''),
       Console_error (ThrownError (JsError (js ''Email service unavailable'')))])"
proof -
  have c: "User_create 1000 (js ''id-1'')
      \<lparr> c_email = js ''john.doe@example.com'', c_firstName = js ''John'', c_lastName = js ''Doe'',
        c_avatar = None, c_isActive = Some True, c_roles = Some [js ''user''],
        c_lastLoginAt = None \<rparr> = Inr (john 1000)"
    by (simp add: User_create_def user_eval)
  show ?thesis
    by (simp add: CreateUser_execute_def CreateUser_body_def validInput_valid c
        validInput_fields mock_dependencies_def try_catch_def sendWelcomeEmailAsync_def)
qed

lemma CreateUser_execute_failing:
  "CreateUser_execute failing_dependencies 1000 (js ''id-1'') validInput =
     (Resolved (Failure (JsError (js ''Unbekannter Fehler beim Erstellen des Benutzers''))),
      [Call_emailExists (js ''john.doe@example.com'')])"
  by (simp add: CreateUser_execute_def CreateUser_body_def validInput_valid validInput_fields
      failing_dependencies_def try_catch_def caught_def)


section \<open>Properties of the HTTP client\<close>





text \<open>One step of \<^verbatim>\<open>executeWithRetry\<close>: it stops after this attempt, or it retries.\<close>

lemma executeWithRetry_stops:
  assumes "\<not> (js_gt attemptsLeft (Finite 0) \<and>
    (\<exists>error. attempt this pf n url init = Some (Inl error) \<and> shouldRetry error))"
  shows "\<exists>res. executeWithRetry this pf n url init attemptsLeft =
           Some (res, [Fetch url (used_signal this init)])"
  using assms
  by (subst executeWithRetry.simps) (auto split: option.splits sum.splits)

lemma executeWithRetry_retries:
  assumes "js_gt attemptsLeft (Finite 0)" and "attempt this pf n url init = Some (Inl error)"
    and "shouldRetry error"
  shows "executeWithRetry this pf n url init attemptsLeft =
           Option.bind
             (executeWithRetry this pf (Suc n) url init (js_sub attemptsLeft (Finite 1)))
             (\<lambda>r. Some (fst r,
                Fetch url (used_signal this init) # Delay (retryDelay this) # snd r))"
  using assms
  by (subst executeWithRetry.simps) simp

text \<open>
  With a finite \<^verbatim>\<open>attemptsLeft\<close> the method ends. Its events are \<open>k\<close> failed attempts,
  each followed by the delay, and a last attempt.
\<close>

lemma executeWithRetry_events:
  "\<exists>k res. k \<le> nat \<lceil>x\<rceil> \<and>
     executeWithRetry this pf n url init (Finite x) =
       Some (res,
         concat (replicate k [Fetch url (used_signal this init), Delay (retryDelay this)]) @
         [Fetch url (used_signal this init)]) \<and>
     (\<forall>i < k. \<exists>error. attempt this pf (n + i) url init = Some (Inl error) \<and> shouldRetry error)"
proof (induction "nat \<lceil>x\<rceil>" arbitrary: x n)
  case 0
  then have "\<not> js_gt (Finite x) (Finite 0)"
    by (simp add: js_gt_def)
  then obtain res where
    "executeWithRetry this pf n url init (Finite x) = Some (res, [Fetch url (used_signal this init)])"
    using executeWithRetry_stops[of "Finite x" this pf n url init] by blast
  then show ?case
    by (intro exI[of _ 0] exI[of _ res]) simp
next
  case (Suc m)
  show ?case
  proof (cases "js_gt (Finite x) (Finite 0) \<and>
      (\<exists>error. attempt this pf n url init = Some (Inl error) \<and> shouldRetry error)")
    case False
    then obtain res where
      "executeWithRetry this pf n url init (Finite x) =
         Some (res, [Fetch url (used_signal this init)])"
      using executeWithRetry_stops[of "Finite x" this pf n url init] by blast
    then show ?thesis
      by (intro exI[of _ 0] exI[of _ res]) simp
  next
    case True
    then obtain error where e: "0 < x" "attempt this pf n url init = Some (Inl error)"
      "shouldRetry error"
      by (auto simp: js_gt_def)
    from Suc.hyps(2) have m: "m = nat \<lceil>x - 1\<rceil>"
      by linarith
    from Suc.hyps(1)[OF m, of "Suc n"] obtain k res where k: "k \<le> nat \<lceil>x - 1\<rceil>"
      "executeWithRetry this pf (Suc n) url init (Finite (x - 1)) =
         Some (res,
           concat (replicate k [Fetch url (used_signal this init), Delay (retryDelay this)]) @
           [Fetch url (used_signal this init)])"
      "\<forall>i < k. \<exists>error. attempt this pf (Suc n + i) url init = Some (Inl error) \<and> shouldRetry error"
      by blast
    have sub: "js_sub (Finite x) (Finite 1) = Finite (x - 1)"
      by (simp add: js_sub_def)
    have run: "executeWithRetry this pf n url init (Finite x) =
        Some (res,
          concat (replicate (Suc k)
            [Fetch url (used_signal this init), Delay (retryDelay this)]) @
          [Fetch url (used_signal this init)])"
      using executeWithRetry_retries[of "Finite x" this pf n url init error] e k(2)
      by (simp add: js_gt_def sub)
    have bound: "Suc k \<le> nat \<lceil>x\<rceil>"
      using k(1) m Suc.hyps(2) by linarith
    have all: "\<forall>i < Suc k. \<exists>error. attempt this pf (n + i) url init = Some (Inl error) \<and>
        shouldRetry error"
    proof (intro allI impI)
      fix i assume "i < Suc k"
      show "\<exists>error. attempt this pf (n + i) url init = Some (Inl error) \<and> shouldRetry error"
      proof (cases i)
        case 0
        with e show ?thesis by auto
      next
        case (Suc j)
        with \<open>i < Suc k\<close> k(3) have
          "\<exists>error. attempt this pf (Suc n + j) url init = Some (Inl error) \<and> shouldRetry error"
          by simp
        with Suc show ?thesis by simp
      qed
    qed
    from bound run all show ?thesis
      by (intro exI[of _ "Suc k"] exI[of _ res]) simp
  qed
qed

text \<open>
  \<^verbatim>\<open>NaN\<close> and \<^verbatim>\<open>-Infinity\<close> as \<^verbatim>\<open>attemptsLeft\<close> mean no retry. With \<^verbatim>\<open>Infinity\<close>
  the method retries as long as the error is one to retry: on a network that is down it
  never ends.
\<close>

lemma executeWithRetry_no_attempts:
  assumes "attemptsLeft = NaN \<or> attemptsLeft = NegInfinity"
  shows "\<exists>res. executeWithRetry this pf n url init attemptsLeft =
           Some (res, [Fetch url (used_signal this init)])"
  using assms executeWithRetry_stops[of attemptsLeft this pf n url init]
  by (auto simp: js_gt_def)


lemma executeWithRetry_ends:
  assumes "executeWithRetry this pf n url init attemptsLeft = Some y"
  shows "\<not> (pf = dead_network \<and> attemptsLeft = PosInfinity)"
proof (rule executeWithRetry.raw_induct
    [where P = "\<lambda>this pf n url init a y. \<not> (pf = dead_network \<and> a = PosInfinity)", OF _ assms])
  fix rec :: "HttpClient \<Rightarrow> Platform \<Rightarrow> nat \<Rightarrow> jsstring \<Rightarrow> RequestInit \<Rightarrow> jsnum \<Rightarrow>
      (http_result \<times> http_event list) option"
    and this pf n url init a and y :: "http_result \<times> http_event list"
  assume IH: "\<And>this pf n url init a y. rec this pf n url init a = Some y \<Longrightarrow>
      \<not> (pf = dead_network \<and> a = PosInfinity)"
  assume body: "(case attempt this pf n url init of
      None \<Rightarrow> Some (Pending, [Fetch url (used_signal this init)])
    | Some (Inl error) \<Rightarrow>
        if js_gt a (Finite 0) \<and> shouldRetry error
        then Option.bind (rec this pf (Suc n) url init (js_sub a (Finite 1)))
               (\<lambda>r. Some (fst r,
                  Fetch url (used_signal this init) # Delay (retryDelay this) # snd r))
        else Some (RejectedWith (createApiError error), [Fetch url (used_signal this init)])
    | Some (Inr response) \<Rightarrow>
        Some (Fulfilled response, [Fetch url (used_signal this init)])) = Some y"
  show "\<not> (pf = dead_network \<and> a = PosInfinity)"
  proof
    assume h: "pf = dead_network \<and> a = PosInfinity"
    then have att: "attempt this pf n url init =
        Some (Inl (ErrorObject True (js ''TypeError'') (js ''Failed to fetch'')))"
      by (simp add: attempt_def dead_network_def)
    have retry: "shouldRetry (ErrorObject True (js ''TypeError'') (js ''Failed to fetch''))"
      by (simp add: shouldRetry_def isFetchTypeError_def js_def)
    from body h att retry obtain r where "rec this pf (Suc n) url init PosInfinity = Some r"
      by (auto simp: js_gt_def js_sub_def split: Option.bind_splits)
    from IH[OF this] h show False
      by simp
  qed
qed

lemma executeWithRetry_for_ever:
  "executeWithRetry this dead_network n url init PosInfinity = None"
  using executeWithRetry_ends[of this dead_network n url init PosInfinity]
  by (cases "executeWithRetry this dead_network n url init PosInfinity") auto





lemma default_client_fields:
  "baseUrl default_client = js ''https://api.example.com''"
  "timeout default_client = 10000"
  "retryAttempts default_client = Finite 3"
  "retryDelay default_client = 1000"
  by (simp_all add: default_client_def HttpClient_new_def nat_or_def num_or_def str_or_def
      API_CONFIG_baseUrl_def)


lemma buildUrl_users:
  "baseUrl this = js ''https://api.example.com'' \<Longrightarrow>
   buildUrl this (js ''/users'') = js ''https://api.example.com/users''"
  by (simp add: buildUrl_def js_def)


lemma failed_to_fetch_is_retried:
  "isFetchTypeError (ErrorObject True (js ''TypeError'') (js ''Failed to fetch''))"
  by (simp add: isFetchTypeError_def js_def)

lemma abort_error_is_retried:
  "isAbortError (ErrorObject False (js ''AbortError'') m)"
  "isFetchTypeError (ErrorObject False (js ''AbortError'') m) = False"
  by (simp_all add: isAbortError_def isFetchTypeError_def)

lemmas request_eval = request_def Let_def buildUrl_users executeWithRetry.simps attempt_def
  used_signal_def shouldRetry_def failed_to_fetch_is_retried abort_error_is_retried
  js_gt_def js_sub_def




text \<open>
  Claim C2 asks that the timeout aborts every attempt that has no response, also when the
  caller supplies an \<^verbatim>\<open>AbortSignal\<close> or a per-request timeout, and that the request then
  ends with the code \<^verbatim>\<open>TIMEOUT_ERROR\<close>. Against a server that never answers, a request
  without a signal of the caller does so after the retries (with the timeout 10000 of the
  client: the \<^verbatim>\<open>timeout\<close> 500 of the request options is not read). With a signal of the
  caller, \<^verbatim>\<open>fetch\<close> is given that signal in place of the controller's, the timer aborts
  nothing, and the request never settles.
\<close>

theorem caller_signal_disables_timeout:
  "request default_client silent_server ''GET'' (js ''/users'') None
       \<lparr> ro_headers = None, ro_timeout = Some 500, ro_signal = Some CallerSignal \<rparr> =
     Some (Pending, [Fetch (js ''https://api.example.com/users'') CallerSignal]) \<and>
   request default_client silent_server ''GET'' (js ''/users'') None
       \<lparr> ro_headers = None, ro_timeout = Some 500, ro_signal = None \<rparr> =
     Some (RejectedWith
        (ApiError ''TIMEOUT_ERROR'' (js ''Anfrage-Timeout: Der Server antwortet nicht'') None),
      [Fetch (js ''https://api.example.com/users'') (ControllerSignal 10000), Delay 1000,
       Fetch (js ''https://api.example.com/users'') (ControllerSignal 10000), Delay 1000,
       Fetch (js ''https://api.example.com/users'') (ControllerSignal 10000), Delay 1000,
       Fetch (js ''https://api.example.com/users'') (ControllerSignal 10000)])"
  by (simp add: request_eval default_client_fields silent_server_def createApiError_def)

lemma caller_signal_is_used:
  assumes "ri_signal init = Some s"
  shows "\<exists>k res. executeWithRetry this pf n url init (Finite x) =
           Some (res, concat (replicate k [Fetch url s, Delay (retryDelay this)]) @ [Fetch url s])"
  using executeWithRetry_events[of x this pf n url init] assms
  by (auto simp: used_signal_def)

end
